theory Spec2Isabelle
  imports Complex_Main "HOL-Library.Sublist" "HOL-Library.Multiset"
begin

section \<open>Data model (workflow/state.py)\<close>

text \<open>
  The run record of the research workflow is a Python \<^verbatim>\<open>TypedDict\<close>; every key is
  present from the moment the request handler builds the initial record, so the record is
  modelled with a fixed shape. Python floats are modelled as reals (the thresholds
  \<^verbatim>\<open>0.7\<close>, \<^verbatim>\<open>0.4\<close>, \<^verbatim>\<open>0.6\<close> as the decimal fractions they denote), Python
  \<^verbatim>\<open>int\<close> as \<^typ>\<open>int\<close>, \<^verbatim>\<open>str\<close> as \<^typ>\<open>string\<close>, \<^verbatim>\<open>Optional\<close> as
  \<^typ>\<open>'a option\<close>, and the ordered dict of report sections as an association list.
\<close>

datatype research_step =
    INITIALIZED | PLANNING | PLANNING_COMPLETE | INTERNAL_RESEARCH | EXTERNAL_RESEARCH
  | RESEARCH_COMPLETE | QUALITY_ASSESSMENT | QUALITY_ASSESSED | REPORT_GENERATION
  | SECTIONS_GENERATED | REPORT_SYNTHESIS | REPORT_COMPLETE | ERROR_RECOVERY

record source =
  content :: string
  title :: string
  url :: "string option"
  source_type :: string
  relevance_score :: real
  credibility_score :: real
  question :: string
  metadata :: "(string \<times> string) list"

record quality_assessment_rec =
  source_diversity :: real
  content_coverage :: real
  source_credibility :: real
  information_gaps :: "string list"
  overall_score :: real

text \<open>An entry of the \<^verbatim>\<open>errors\<close> list: the dict with keys type, message and step.\<close>

record error_info =
  etype :: string
  message :: string
  step :: string

record plan =
  plan_topic :: string
  plan_questions :: "string list"
  internal_sources_available :: nat
  external_domains_identified :: nat
  estimated_duration_minutes :: int
  research_strategy :: string

record research_state =
  topic :: string
  research_plan :: "plan option"
  research_questions :: "string list"
  internal_sources :: "source list"
  external_sources :: "source list"
  all_sources :: "source list"
  quality_assessment :: "quality_assessment_rec option"
  quality_score :: real
  report_sections :: "(string \<times> string) list"
  final_report :: "string option"
  current_step :: research_step
  iteration_count :: int
  errors :: "error_info list"
  start_time :: "string option"
  end_time :: "string option"
  processing_time :: "real option"

text \<open>A raised Python exception, with the text that \<^verbatim>\<open>str(e)\<close> gives.\<close>

datatype exn = Exception (str_exn: string)

section \<open>The quality router (workflow/research\_workflow.py)\<close>

text \<open>Python's \<^verbatim>\<open>needle in haystack\<close> on strings: a contiguous occurrence.\<close>

fun str_in :: "string \<Rightarrow> string \<Rightarrow> bool" where
  "str_in needle [] = (needle = [])"
| "str_in needle (c # cs) = (prefix needle (c # cs) \<or> str_in needle cs)"

definition critical_errors :: "research_state \<Rightarrow> error_info list" where
  "critical_errors state = filter (\<lambda>e. str_in ''critical'' (etype e)) (errors state)"

definition quality_router :: "research_state \<Rightarrow> string" where
  "quality_router state =
     (if critical_errors state \<noteq> [] then ''error''
      else if iteration_count state \<ge> 3 then ''generate_report''
      else if quality_score state \<ge> 0.7 then ''generate_report''
      else if quality_score state \<ge> 0.4 then ''retry_research''
      else ''replan'')"

section \<open>Python built-ins taken as parameters\<close>

text \<open>
  A character of a Python string is a \<^typ>\<open>char\<close> here, a string a list of them. The
  definitions below look at a character only by comparing it with a literal (newline,
  dot, dash, question mark, the separator of a split) or through Python's own character
  classes \<^verbatim>\<open>str.isspace\<close> and \<^verbatim>\<open>str.isdigit\<close>. These two follow the Unicode tables
  and are parameters, as are the string hash (\<open>py_hash\<close>), \<^verbatim>\<open>format(x, '.2f')\<close>
  (\<open>format_2f\<close>), \<^verbatim>\<open>str\<close> on a float (\<open>str_float\<close>), \<^verbatim>\<open>str\<close> on a list of
  strings (\<open>repr_list\<close>) and the seconds between two ISO timestamps (\<open>iso_seconds\<close>,
  \<open>None\<close> when one of them does not parse).
\<close>

record python =
  py_isspace :: "char \<Rightarrow> bool"
  py_isdigit :: "char \<Rightarrow> bool"
  py_hash :: "string \<Rightarrow> int"
  format_2f :: "real \<Rightarrow> string"
  str_float :: "real \<Rightarrow> string"
  repr_list :: "string list \<Rightarrow> string"
  iso_seconds :: "string \<Rightarrow> string \<Rightarrow> real option"

section \<open>Python string operations used by the agents\<close>

text \<open>
  \<^verbatim>\<open>str.strip()\<close> removes the whitespace characters from both ends;
  \<^verbatim>\<open>str.split(sep)\<close> cuts at every occurrence of the separator and keeps empty pieces.
\<close>

definition strip :: "python \<Rightarrow> string \<Rightarrow> string" where
  "strip py s = rev (dropWhile (py_isspace py) (rev (dropWhile (py_isspace py) s)))"

fun split_char :: "char \<Rightarrow> string \<Rightarrow> string list" where
  "split_char sep [] = [[]]"
| "split_char sep (c # cs) =
     (if c = sep then [] # split_char sep cs
      else (case split_char sep cs of
              w # ws \<Rightarrow> (c # w) # ws
            | [] \<Rightarrow> [[c]]))"

text \<open>\<^verbatim>\<open>line.split('.', 1)[-1]\<close>: what follows the first dot, the whole line without one.\<close>

definition after_first_dot :: "string \<Rightarrow> string" where
  "after_first_dot line =
     (case dropWhile (\<lambda>c. c \<noteq> CHR ''.'') line of [] \<Rightarrow> line | _ # rest \<Rightarrow> rest)"

definition endswith_qmark :: "string \<Rightarrow> bool" where
  "endswith_qmark s = (s \<noteq> [] \<and> last s = CHR ''?'')"

text \<open>\<^verbatim>\<open>sep.join(parts)\<close>.\<close>

fun join :: "string \<Rightarrow> string list \<Rightarrow> string" where
  "join sep [] = []"
| "join sep [p] = p"
| "join sep (p # q # ps) = p @ sep @ join sep (q # ps)"

definition join_lines :: "string list \<Rightarrow> string" where
  "join_lines parts = join [CHR 0x0A] parts"

text \<open>\<^verbatim>\<open>str(n)\<close> for a natural number: its decimal digits.\<close>

fun digits_of :: "nat \<Rightarrow> nat \<Rightarrow> string" where
  "digits_of 0 n = []"
| "digits_of (Suc fuel) n =
     (if n < 10 then [char_of (48 + n)]
      else digits_of fuel (n div 10) @ [char_of (48 + n mod 10)])"

definition str_nat :: "nat \<Rightarrow> string" where
  "str_nat n = digits_of (Suc n) n"

definition str_int :: "int \<Rightarrow> string" where
  "str_int i = (if i < 0 then CHR ''-'' # str_nat (nat (- i)) else str_nat (nat i))"

section \<open>Research planner (agents/research\_planner.py)\<close>

text \<open>
  The loop of \<^verbatim>\<open>_generate_research_questions\<close> over the lines of the completion:
  a line is taken when it is not blank and its first character is a digit or a dash; the
  text after its first dot, stripped, is kept when it ends in a question mark.
\<close>

fun parse_questions :: "python \<Rightarrow> string list \<Rightarrow> string list" where
  "parse_questions py [] = []"
| "parse_questions py (line # rest) =
     (if strip py line \<noteq> [] \<and>
         ((case line of c # _ \<Rightarrow> py_isdigit py c | [] \<Rightarrow> False) \<or> prefix ''-'' line)
      then (let question = strip py (after_first_dot line)
            in if endswith_qmark question then question # parse_questions py rest
               else parse_questions py rest)
      else parse_questions py rest)"

definition generate_research_questions :: "python \<Rightarrow> string \<Rightarrow> string list" where
  "generate_research_questions py response =
     take 6 (parse_questions py (split_char (CHR 0x0A) (strip py response)))"

definition estimate_duration :: "string list \<Rightarrow> int" where
  "estimate_duration questions =
     (let base_time = 5;
          complexity_multiplier = (if length questions > 4 then 1.5 else 1.2 :: real)
      in \<lfloor>real (length questions) * base_time * complexity_multiplier\<rfloor>)"

definition planner_handle_error :: "research_state \<Rightarrow> exn \<Rightarrow> string \<Rightarrow> research_state" where
  "planner_handle_error state error error_type =
     state\<lparr>errors := errors state @
              [\<lparr>etype = error_type, message = str_exn error, step = ''planning''\<rparr>],
           current_step := ERROR_RECOVERY\<rparr>"

text \<open>
  What the outside world contributes to one call of the planner: the completion for the
  question prompt (or the exception the completion client raises) and the sizes of the two
  source previews (both previews catch their own failures and then are empty).
\<close>

record planner_world =
  questions_completion :: "exn + string"
  internal_preview :: nat
  external_preview :: nat

definition planner_execute ::
  "python \<Rightarrow> planner_world \<Rightarrow> research_state \<Rightarrow> research_state" where
  "planner_execute py w state =
     (case questions_completion w of
        Inl e \<Rightarrow> planner_handle_error state e ''planning_failed''
      | Inr response \<Rightarrow>
          (let research_questions' = generate_research_questions py response;
               plan' = \<lparr>plan_topic = topic state,
                        plan_questions = research_questions',
                        internal_sources_available = internal_preview w,
                        external_domains_identified = external_preview w,
                        estimated_duration_minutes = estimate_duration research_questions',
                        research_strategy = ''comprehensive_multi_source''\<rparr>
           in state\<lparr>research_plan := Some plan',
                    research_questions := research_questions',
                    current_step := PLANNING_COMPLETE,
                    iteration_count := iteration_count state + 1\<rparr>))"

section \<open>Internal researcher (agents/internal\_researcher.py)\<close>

text \<open>A hit of the vector store: the keys text, title (absent from the store's hits), score, metadata.\<close>

record internal_hit =
  hit_text :: string
  hit_title :: "string option"
  score :: real
  hit_metadata :: "(string \<times> string) list"

definition internal_source :: "string \<Rightarrow> internal_hit \<Rightarrow> source" where
  "internal_source question' result =
     \<lparr>content = hit_text result,
      title = (case hit_title result of Some t \<Rightarrow> t
               | None \<Rightarrow> ''Internal Document - '' @ question'),
      url = None,
      source_type = ''internal'',
      relevance_score = score result,
      credibility_score = 0.9,
      question = question',
      metadata = hit_metadata result\<rparr>"

text \<open>
  The collecting loop over the gathered per-question results: a question whose task
  ended in an exception contributes nothing.
\<close>

fun collect_internal :: "string list \<Rightarrow> (exn + internal_hit list) list \<Rightarrow> source list" where
  "collect_internal (q # qs) (Inr results # rs) =
     map (internal_source q) results @ collect_internal qs rs"
| "collect_internal (q # qs) (Inl e # rs) = collect_internal qs rs"
| "collect_internal qs rs = []"

text \<open>
  \<^verbatim>\<open>_deduplicate_sources\<close>: Python's \<^verbatim>\<open>hash\<close> on strings is a parameter; the set of
  hashes seen so far is threaded through the loop.
\<close>

fun deduplicate_loop :: "(string \<Rightarrow> int) \<Rightarrow> int set \<Rightarrow> source list \<Rightarrow> source list" where
  "deduplicate_loop hash seen_content [] = []"
| "deduplicate_loop hash seen_content (src # rest) =
     (let content_hash = hash (take 200 (content src))
      in if content_hash \<notin> seen_content
         then src # deduplicate_loop hash (insert content_hash seen_content) rest
         else deduplicate_loop hash seen_content rest)"

definition deduplicate_sources :: "(string \<Rightarrow> int) \<Rightarrow> source list \<Rightarrow> source list" where
  "deduplicate_sources hash sources = deduplicate_loop hash {} sources"

text \<open>
  \<^verbatim>\<open>sorted(xs, key=k, reverse=True)\<close>: a stable sort by descending key (elements with
  equal keys keep their order).
\<close>

definition sorted_desc :: "('a \<Rightarrow> real) \<Rightarrow> 'a list \<Rightarrow> 'a list" where
  "sorted_desc k xs = sort_key (\<lambda>x. - k x) xs"

definition internal_handle_error :: "research_state \<Rightarrow> exn \<Rightarrow> research_state" where
  "internal_handle_error state error =
     state\<lparr>internal_sources := [],
           errors := errors state @
              [\<lparr>etype = ''internal_research_failed'', message = str_exn error,
                step = ''internal_research''\<rparr>],
           current_step := (if current_step state \<noteq> EXTERNAL_RESEARCH then INTERNAL_RESEARCH
                            else RESEARCH_COMPLETE)\<rparr>"

text \<open>
  The world of one internal research pass: what the search of each question gives (its
  hits, or the exception its task ended in), and an exception raised elsewhere inside the
  \<^verbatim>\<open>try\<close> body, if any (a malformed hit, for instance).
\<close>

record internal_world =
  internal_search :: "string \<Rightarrow> exn + internal_hit list"
  internal_fault :: "exn option"

definition internal_execute ::
  "(string \<Rightarrow> int) \<Rightarrow> internal_world \<Rightarrow> research_state \<Rightarrow> research_state" where
  "internal_execute hash w state =
     (case internal_fault w of
        Some e \<Rightarrow> internal_handle_error state e
      | None \<Rightarrow>
          (let questions = research_questions state;
               question_results = map (internal_search w) questions;
               collected = collect_internal questions question_results;
               unique_sources = deduplicate_sources hash collected;
               top = take 20 (sorted_desc relevance_score unique_sources)
           in state\<lparr>internal_sources := top,
                    current_step := (if current_step state \<noteq> EXTERNAL_RESEARCH
                                     then INTERNAL_RESEARCH else RESEARCH_COMPLETE)\<rparr>))"

section \<open>External researcher (agents/external\_researcher.py)\<close>

text \<open>A processed search result, as \<^verbatim>\<open>_process_search_result\<close> returns it.\<close>

record processed_result =
  p_content :: string
  p_title :: string
  p_url :: string
  p_relevance_score :: real
  p_credibility_score :: real
  p_metadata :: "(string \<times> string) list"

definition external_source :: "string \<Rightarrow> processed_result \<Rightarrow> source" where
  "external_source question' result =
     \<lparr>content = p_content result,
      title = p_title result,
      url = Some (p_url result),
      source_type = ''external'',
      relevance_score = p_relevance_score result,
      credibility_score = p_credibility_score result,
      question = question',
      metadata = p_metadata result\<rparr>"

fun collect_external :: "string list \<Rightarrow> (exn + processed_result list) list \<Rightarrow> source list" where
  "collect_external (q # qs) (Inr results # rs) =
     map (external_source q) results @ collect_external qs rs"
| "collect_external (q # qs) (Inl e # rs) = collect_external qs rs"
| "collect_external qs rs = []"

definition filter_quality_sources :: "source list \<Rightarrow> source list" where
  "filter_quality_sources sources =
     filter (\<lambda>src. relevance_score src \<ge> 0.3 \<and> credibility_score src \<ge> 0.4
                  \<and> length (content src) \<ge> 200) sources"

definition external_handle_error :: "research_state \<Rightarrow> exn \<Rightarrow> research_state" where
  "external_handle_error state error =
     state\<lparr>external_sources := [],
           errors := errors state @
              [\<lparr>etype = ''external_research_failed'', message = str_exn error,
                step = ''external_research''\<rparr>],
           current_step := (if current_step state \<noteq> INTERNAL_RESEARCH then EXTERNAL_RESEARCH
                            else RESEARCH_COMPLETE)\<rparr>"

record external_world =
  external_search :: "string \<Rightarrow> exn + processed_result list"
  external_fault :: "exn option"

definition external_execute :: "external_world \<Rightarrow> research_state \<Rightarrow> research_state" where
  "external_execute w state =
     (case external_fault w of
        Some e \<Rightarrow> external_handle_error state e
      | None \<Rightarrow>
          (let questions = research_questions state;
               question_results = map (external_search w) questions;
               collected = collect_external questions question_results;
               quality_sources = filter_quality_sources collected;
               top = take 25 (sorted_desc (\<lambda>x. credibility_score x * relevance_score x)
                               quality_sources)
           in state\<lparr>external_sources := top,
                    current_step := (if current_step state \<noteq> INTERNAL_RESEARCH
                                     then EXTERNAL_RESEARCH else RESEARCH_COMPLETE)\<rparr>))"

section \<open>The parallel research node (workflow/research\_workflow.py)\<close>

text \<open>
  The merge after \<^verbatim>\<open>asyncio.gather(..., return_exceptions=True)\<close>: each result is
  either the exception its task ended in or the record its \<^verbatim>\<open>execute\<close> returned.
  \<open>state\<close> is the node's record at the time of the merge.
\<close>

definition merge_research ::
  "research_state \<Rightarrow> exn + research_state \<Rightarrow> exn + research_state \<Rightarrow> research_state" where
  "merge_research state internal_result external_result =
     (let merged_state = state;
          merged_state =
            (case internal_result of
               Inr r \<Rightarrow> merged_state\<lparr>internal_sources := internal_sources r\<rparr>
             | Inl e \<Rightarrow> merged_state\<lparr>internal_sources := [],
                   errors := errors merged_state @
                     [\<lparr>etype = ''internal_research_failed'', message = str_exn e,
                       step = ''internal_research''\<rparr>]\<rparr>);
          merged_state =
            (case external_result of
               Inr r \<Rightarrow> merged_state\<lparr>external_sources := external_sources r\<rparr>
             | Inl e \<Rightarrow> merged_state\<lparr>external_sources := [],
                   errors := errors merged_state @
                     [\<lparr>etype = ''external_research_failed'', message = str_exn e,
                       step = ''external_research''\<rparr>]\<rparr>)
      in merged_state\<lparr>current_step := RESEARCH_COMPLETE\<rparr>)"

text \<open>
  The two agents receive the node's own record. Their error handlers append to its
  \<^verbatim>\<open>errors\<close> list in place, and \<^verbatim>\<open>state.copy()\<close> is shallow, so what a handler
  appended is in the merged record as well: \<open>appended\<close> is that suffix (the internal
  agent's entries are put first; the source leaves the order to the scheduler).
  A task may also end in an exception that escapes its agent.
\<close>

record research_world =
  internal_w :: internal_world
  internal_escapes :: "exn option"
  external_w :: external_world
  external_escapes :: "exn option"

definition appended :: "research_state \<Rightarrow> exn + research_state \<Rightarrow> error_info list" where
  "appended state result =
     (case result of Inr r \<Rightarrow> drop (length (errors state)) (errors r) | Inl e \<Rightarrow> [])"

definition parallel_research_node ::
  "(string \<Rightarrow> int) \<Rightarrow> research_world \<Rightarrow> research_state \<Rightarrow> research_state" where
  "parallel_research_node hash w state0 =
     (let state = state0\<lparr>current_step := INTERNAL_RESEARCH\<rparr>;
          internal_result =
            (case internal_escapes w of Some e \<Rightarrow> Inl e
             | None \<Rightarrow> Inr (internal_execute hash (internal_w w) state));
          external_result =
            (case external_escapes w of Some e \<Rightarrow> Inl e
             | None \<Rightarrow> Inr (external_execute (external_w w) state));
          state = state\<lparr>errors := errors state @ appended state internal_result
                                   @ appended state external_result\<rparr>
      in merge_research state internal_result external_result)"

section \<open>Quality assessor (agents/quality\_assessor.py)\<close>

text \<open>
  What the completion for the coverage prompt of a question amounts to: the call (or the
  building of the prompt) raised; or the answer is no float literal (\<^verbatim>\<open>float\<close> raises
  \<^verbatim>\<open>ValueError\<close>); or the answer read as a float.
\<close>

datatype llm_rating = CallFailed exn | NotAFloat | Parsed real

definition domain_of :: "source \<Rightarrow> string" where
  "domain_of src = (case map_of (metadata src) ''domain'' of Some d \<Rightarrow> d | None \<Rightarrow> ''unknown'')"

definition assess_source_diversity :: "source list \<Rightarrow> source list \<Rightarrow> real" where
  "assess_source_diversity internal external =
     (let total_sources = length internal + length external
      in if total_sources = 0 then 0
         else (let internal_ratio = real (length internal) / real total_sources;
                   ideal_internal = 0.4;
                   internal_score = 1 - \<bar>internal_ratio - ideal_internal\<bar> / ideal_internal;
                   external_domains = remdups (map domain_of external);
                   domain_diversity =
                     min (real (length external_domains) / real (max (length external) 1)) 1;
                   diversity_score = internal_score * 0.6 + domain_diversity * 0.4
               in max 0 (min 1 diversity_score)))"

definition calculate_question_coverage :: "llm_rating \<Rightarrow> source list \<Rightarrow> real" where
  "calculate_question_coverage rating sources =
     (if sources = [] then 0
      else (case rating of
              Parsed score' \<Rightarrow> max 0 (min 1 score')
            | NotAFloat \<Rightarrow> 0.5
            | CallFailed e \<Rightarrow>
                sum_list (map relevance_score sources) / real (length sources)))"

text \<open>The body of the loop of \<^verbatim>\<open>_assess_content_coverage\<close>: the score of one question.\<close>

definition question_coverage ::
  "(string \<Rightarrow> llm_rating) \<Rightarrow> source list \<Rightarrow> string \<Rightarrow> real" where
  "question_coverage ratings sources q =
     (let related_sources = filter (\<lambda>s. question s = q) sources
      in if related_sources = [] then 0
         else calculate_question_coverage (ratings q) related_sources)"

definition assess_content_coverage ::
  "(string \<Rightarrow> llm_rating) \<Rightarrow> string list \<Rightarrow> source list \<Rightarrow> real" where
  "assess_content_coverage ratings questions sources =
     (if questions = [] \<or> sources = [] then 0
      else (let coverage_scores = map (question_coverage ratings sources) questions
            in sum_list coverage_scores / real (length coverage_scores)))"

definition assess_source_credibility :: "source list \<Rightarrow> real" where
  "assess_source_credibility sources =
     (if sources = [] then 0
      else sum_list (map credibility_score sources) / real (length sources))"

definition identify_information_gaps :: "string list \<Rightarrow> source list \<Rightarrow> string list" where
  "identify_information_gaps questions sources =
     filter (\<lambda>q. let related_sources = filter (\<lambda>s. question s = q) sources
                 in related_sources = [] \<or>
                    (let total_content = sum_list (map (\<lambda>s. length (content s)) related_sources);
                         avg_relevance = sum_list (map relevance_score related_sources)
                                           / real (length related_sources)
                     in total_content < 1000 \<or> avg_relevance < 0.4))
            questions"

text \<open>
  The overall score divides by the number of questions; with no question Python raises
  \<^verbatim>\<open>ZeroDivisionError\<close>, after the four sub-scores have been computed.
\<close>

definition assess_research_quality ::
  "(string \<Rightarrow> llm_rating) \<Rightarrow> string list \<Rightarrow> source list \<Rightarrow> source list
     \<Rightarrow> exn + quality_assessment_rec" where
  "assess_research_quality ratings questions internal external =
     (let source_diversity' = assess_source_diversity internal external;
          content_coverage' = assess_content_coverage ratings questions (internal @ external);
          source_credibility' = assess_source_credibility (internal @ external);
          information_gaps' = identify_information_gaps questions (internal @ external)
      in if length questions = 0 then Inl (Exception ''division by zero'')
         else Inr \<lparr>source_diversity = source_diversity',
                   content_coverage = content_coverage',
                   source_credibility = source_credibility',
                   information_gaps = information_gaps',
                   overall_score =
                     source_diversity' * 0.2 + content_coverage' * 0.4
                     + source_credibility' * 0.3
                     + (1 - real (length information_gaps') / real (length questions)) * 0.1\<rparr>)"

definition quality_handle_error :: "research_state \<Rightarrow> exn \<Rightarrow> research_state" where
  "quality_handle_error state error =
     state\<lparr>quality_score := 0.6,
           all_sources := internal_sources state @ external_sources state,
           errors := errors state @
              [\<lparr>etype = ''quality_assessment_failed'', message = str_exn error,
                step = ''quality_assessment''\<rparr>],
           current_step := QUALITY_ASSESSED\<rparr>"

definition quality_execute :: "(string \<Rightarrow> llm_rating) \<Rightarrow> research_state \<Rightarrow> research_state" where
  "quality_execute ratings state =
     (case assess_research_quality ratings (research_questions state)
             (internal_sources state) (external_sources state) of
        Inl e \<Rightarrow> quality_handle_error state e
      | Inr assessment \<Rightarrow>
          state\<lparr>quality_assessment := Some assessment,
                quality_score := overall_score assessment,
                all_sources := internal_sources state @ external_sources state,
                current_step := QUALITY_ASSESSED\<rparr>)"

section \<open>Report generator (agents/report\_generator.py)\<close>

definition internal_reference_entries :: "source list \<Rightarrow> string list" where
  "internal_reference_entries internal =
     map (\<lambda>(i, src). str_nat i @ ''. '' @ title src) (enumerate 1 (take 15 internal))"

definition external_reference_entries :: "source list \<Rightarrow> string list" where
  "external_reference_entries external =
     map (\<lambda>(i, src).
            (case url src of
               Some u \<Rightarrow> if u \<noteq> [] then str_nat i @ ''. '' @ title src @ ''. Retrieved from '' @ u
                         else str_nat i @ ''. '' @ title src
             | None \<Rightarrow> str_nat i @ ''. '' @ title src))
         (enumerate 1 (take 20 external))"

definition references_list :: "source list \<Rightarrow> string list" where
  "references_list sources =
     (let internal = filter (\<lambda>s. source_type s = ''internal'') sources;
          external = filter (\<lambda>s. source_type s = ''external'') sources
      in (if internal \<noteq> [] then ''## Internal Sources'' # internal_reference_entries internal
          else [])
         @ (if external \<noteq> []
            then (CHR 0x0A # ''## External Sources'') # external_reference_entries external
            else []))"

definition generate_references :: "source list \<Rightarrow> string" where
  "generate_references sources = join_lines (references_list sources)"

definition handle_insufficient_sources :: "research_state \<Rightarrow> research_state" where
  "handle_insufficient_sources state =
     state\<lparr>report_sections :=
             [(''executive_summary'',
               ''Research on '' @ [CHR 0x27] @ topic state @ [CHR 0x27]
                 @ '' was conducted but insufficient sources were found to generate a comprehensive report.''),
              (''introduction'',
               ''This report examines '' @ [CHR 0x27] @ topic state @ [CHR 0x27]
                 @ ''. However, limited source material was available for analysis.''),
              (''key_findings'',
               ''Limited findings available due to insufficient source material.''),
              (''detailed_analysis'',
               ''Unable to provide detailed analysis due to lack of sufficient sources.''),
              (''conclusion'',
               ''This research was limited by insufficient source material. Further investigation with additional resources is recommended.''),
              (''references'', ''No sufficient sources available for citation.'')],
           current_step := SECTIONS_GENERATED\<rparr>"

definition generator_handle_error :: "research_state \<Rightarrow> exn \<Rightarrow> research_state" where
  "generator_handle_error state error =
     state\<lparr>report_sections := [],
           errors := errors state @
              [\<lparr>etype = ''report_generation_failed'', message = str_exn error,
                step = ''report_generation''\<rparr>],
           current_step := ERROR_RECOVERY\<rparr>"

text \<open>
  The world of one report generation: for each of the five written sections the
  completion (or the exception its task ended in), and an exception raised elsewhere
  in the \<^verbatim>\<open>try\<close> body, if any.
\<close>

record generator_world =
  section_completion :: "string \<Rightarrow> exn + string"
  generator_fault :: "exn option"

definition written_section :: "python \<Rightarrow> generator_world \<Rightarrow> string \<Rightarrow> exn + string" where
  "written_section py w name =
     (case section_completion w name of
        Inl e \<Rightarrow> Inl e
      | Inr response \<Rightarrow> Inr (strip py response))"

definition generator_execute ::
  "python \<Rightarrow> generator_world \<Rightarrow> research_state \<Rightarrow> research_state" where
  "generator_execute py w state =
     (case generator_fault w of
        Some e \<Rightarrow> generator_handle_error state e
      | None \<Rightarrow>
          (let sources = all_sources state
           in if sources = [] then handle_insufficient_sources state
              else (let section_results =
                          [(''executive_summary'', written_section py w ''executive_summary''),
                           (''introduction'', written_section py w ''introduction''),
                           (''key_findings'', written_section py w ''key_findings''),
                           (''detailed_analysis'', written_section py w ''detailed_analysis''),
                           (''conclusion'', written_section py w ''conclusion''),
                           (''references'', Inr (generate_references sources))];
                        sections =
                          map (\<lambda>(section_name, result).
                                 (section_name,
                                  (case result of
                                     Inl e \<Rightarrow> ''Error generating '' @ section_name @ '': ''
                                               @ str_exn e
                                   | Inr r \<Rightarrow> r)))
                              section_results
                    in state\<lparr>report_sections := sections,
                             current_step := SECTIONS_GENERATED\<rparr>)))"

section \<open>Report synthesizer (agents/report\_synthesizer.py)\<close>

text \<open>
  The world of one synthesis: the clock (\<^verbatim>\<open>strftime("%B %d, %Y")\<close> and
  \<^verbatim>\<open>isoformat()\<close>), the completion of the post-processing prompt, and an exception
  raised elsewhere in the \<^verbatim>\<open>try\<close> body, if any.
\<close>

record synth_world =
  current_date :: string
  now_iso :: string
  post_completion :: "exn + string"
  synth_fault :: "exn option"

definition unlines :: "string list \<Rightarrow> string" where
  "unlines ls = concat (map (\<lambda>l. l @ [CHR 0x0A]) ls)"

definition create_report_header ::
  "python \<Rightarrow> synth_world \<Rightarrow> string \<Rightarrow> real \<Rightarrow> nat \<Rightarrow> nat \<Rightarrow> nat \<Rightarrow> string" where
  "create_report_header py w topic' quality_score' source_count internal_count external_count =
     strip py (unlines
       [[],
        ''# Research Report: '' @ topic',
        [],
        ''**Date:** '' @ current_date w,
        ''**Report Quality Score:** '' @ format_2f py quality_score' @ ''/1.00'',
        ''**Total Sources:** '' @ str_nat source_count @ '' ('' @ str_nat internal_count
           @ '' internal, '' @ str_nat external_count @ '' external)'',
        [],
        ''---''] @ ''        '')"

text \<open>
  \<^verbatim>\<open>state.get("quality_assessment", {})\<close> gives \<^verbatim>\<open>None\<close> when the key holds
  \<^verbatim>\<open>None\<close>, and the first \<^verbatim>\<open>.get\<close> on it raises \<^verbatim>\<open>AttributeError\<close>.
\<close>

definition create_metadata_section :: "python \<Rightarrow> research_state \<Rightarrow> exn + string" where
  "create_metadata_section py state =
     (case quality_assessment state of
        None \<Rightarrow> Inl (Exception ([CHR 0x27] @ ''NoneType'' @ [CHR 0x27]
                  @ '' object has no attribute '' @ [CHR 0x27] @ ''get'' @ [CHR 0x27]))
      | Some qa \<Rightarrow>
          (let metadata' = unlines
                 [[],
                  ''---'',
                  [],
                  ''# Research Methodology'',
                  [],
                  ''## Quality Assessment'',
                  ''- **Source Diversity:** '' @ format_2f py (source_diversity qa),
                  ''- **Content Coverage:** '' @ format_2f py (content_coverage qa),
                  ''- **Source Credibility:** '' @ format_2f py (source_credibility qa),
                  ''- **Overall Quality Score:** '' @ format_2f py (quality_score state),
                  [],
                  ''## Research Process'',
                  ''- **Research Questions:** '' @ str_nat (length (research_questions state)),
                  ''- **Internal Sources Found:** '' @ str_nat (length (internal_sources state)),
                  ''- **External Sources Found:** '' @ str_nat (length (external_sources state)),
                  ''- **Processing Time:** ''
                     @ (case processing_time state of None \<Rightarrow> ''None''
                        | Some t \<Rightarrow> str_float py t) @ '' seconds'',
                  ''- **Research Iterations:** '' @ str_int (iteration_count state),
                  [],
                  ''## Information Gaps''];
               gaps = information_gaps qa
           in Inr (if gaps \<noteq> [] then metadata' @ unlines (map (\<lambda>gap. ''- '' @ gap) gaps)
                   else metadata' @ unlines [''- No significant information gaps identified''])))"

definition post_process_report :: "python \<Rightarrow> synth_world \<Rightarrow> string \<Rightarrow> string" where
  "post_process_report py w report =
     (if length report < 3000
      then (case post_completion w of Inr response \<Rightarrow> strip py response | Inl e \<Rightarrow> report)
      else report)"

definition section_order :: "(string \<times> string) list" where
  "section_order =
     [(''executive_summary'', ''Executive Summary''),
      (''introduction'', ''Introduction''),
      (''key_findings'', ''Key Findings''),
      (''detailed_analysis'', ''Detailed Analysis''),
      (''conclusion'', ''Conclusion''),
      (''references'', ''References'')]"

definition section_parts :: "(string \<times> string) list \<Rightarrow> string \<times> string \<Rightarrow> string list" where
  "section_parts sections entry =
     (case entry of (section_key, section_title) \<Rightarrow>
        (case map_of sections section_key of
           Some body \<Rightarrow>
             if body \<noteq> [] then [CHR 0x0A # ''# '' @ section_title @ [CHR 0x0A], body, [CHR 0x0A]]
             else []
         | None \<Rightarrow> []))"

definition synthesize_report ::
  "python \<Rightarrow> synth_world \<Rightarrow> (string \<times> string) list \<Rightarrow> string \<Rightarrow> research_state
     \<Rightarrow> exn + string" where
  "synthesize_report py w sections topic' state =
     (let report_header =
            create_report_header py w topic' (quality_score state) (length (all_sources state))
              (length (internal_sources state)) (length (external_sources state));
          report_parts = [report_header] @ concat (map (section_parts sections) section_order)
      in (case create_metadata_section py state of
            Inl e \<Rightarrow> Inl e
          | Inr metadata_section \<Rightarrow>
              Inr (post_process_report py w (join_lines (report_parts @ [metadata_section])))))"

definition calculate_processing_time :: "python \<Rightarrow> string option \<Rightarrow> string \<Rightarrow> real" where
  "calculate_processing_time py start_time' end_time' =
     (case start_time' of
        None \<Rightarrow> 0
      | Some st \<Rightarrow>
          if st \<noteq> [] \<and> end_time' \<noteq> []
          then (case iso_seconds py st end_time' of Some d \<Rightarrow> d | None \<Rightarrow> 0)
          else 0)"

definition handle_empty_sections :: "python \<Rightarrow> synth_world \<Rightarrow> research_state \<Rightarrow> research_state" where
  "handle_empty_sections py w state =
     (let minimal_report = unlines
            [[],
             ''# Research Report: '' @ topic state,
             [],
             ''**Date:** '' @ current_date w,
             ''**Status:** Incomplete - Insufficient Data'',
             [],
             ''## Summary'',
             ''Research on '' @ [CHR 0x27] @ topic state @ [CHR 0x27]
               @ '' was initiated but could not be completed due to insufficient source material or processing errors.'',
             [],
             ''## Recommendation'',
             ''Please try the research again with:'',
             ''- More specific search terms'',
             ''- Expanded source databases'',
             ''- Alternative research approaches'',
             [],
             ''## Technical Details'',
             ''- Quality Score: '' @ format_2f py (quality_score state),
             ''- Sources Found: '' @ str_nat (length (all_sources state)),
             ''- Processing Errors: '' @ str_nat (length (errors state))] @ ''        ''
      in state\<lparr>final_report := Some minimal_report,
               end_time := Some (now_iso w),
               current_step := REPORT_COMPLETE\<rparr>)"

definition synth_handle_error :: "synth_world \<Rightarrow> research_state \<Rightarrow> exn \<Rightarrow> research_state" where
  "synth_handle_error w state error =
     (let error_report = unlines
            [[],
             ''# Research Report: '' @ topic state,
             [],
             ''**Date:** '' @ current_date w,
             ''**Status:** Failed - Synthesis Error'',
             [],
             ''## Error Information'',
             ''An error occurred during report synthesis: '' @ str_exn error,
             [],
             ''## Available Data'',
             ''- Research Questions: '' @ str_nat (length (research_questions state)),
             ''- Sources Found: '' @ str_nat (length (all_sources state)),
             ''- Sections Generated: '' @ str_nat (length (report_sections state)),
             [],
             ''Please try the research again or contact support if the issue persists.'']
            @ ''        ''
      in state\<lparr>final_report := Some error_report,
               errors := errors state @
                 [\<lparr>etype = ''report_synthesis_failed'', message = str_exn error,
                   step = ''report_synthesis''\<rparr>],
               end_time := Some (now_iso w),
               current_step := REPORT_COMPLETE\<rparr>)"

definition synth_execute :: "python \<Rightarrow> synth_world \<Rightarrow> research_state \<Rightarrow> research_state" where
  "synth_execute py w state =
     (case synth_fault w of
        Some e \<Rightarrow> synth_handle_error w state e
      | None \<Rightarrow>
          (let sections = report_sections state
           in if sections = [] then handle_empty_sections py w state
              else (case synthesize_report py w sections (topic state) state of
                      Inl e \<Rightarrow> synth_handle_error w state e
                    | Inr final_report' \<Rightarrow>
                        (let end_time' = now_iso w;
                             processing_time' =
                               calculate_processing_time py (start_time state) end_time'
                         in state\<lparr>final_report := Some final_report',
                                  end_time := Some end_time',
                                  processing_time := Some processing_time',
                                  current_step := REPORT_COMPLETE\<rparr>))))"

section \<open>The workflow graph (workflow/research\_workflow.py)\<close>

definition error_recovery_node :: "python \<Rightarrow> research_state \<Rightarrow> research_state" where
  "error_recovery_node py state =
     (if length (errors state) > 5
      then state\<lparr>final_report :=
                   Some (''Research failed due to multiple errors: ''
                         @ repr_list py (map etype (errors state))),
                 current_step := REPORT_COMPLETE\<rparr>
      else state)"

text \<open>The world of one step of the graph: what each agent meets if it is the one that runs.\<close>

record event =
  clock :: string
  planner_w :: planner_world
  research_w :: research_world
  ratings_w :: "string \<Rightarrow> llm_rating"
  generator_w :: generator_world
  synth_w :: synth_world
  node_raises :: "exn option"

definition planning_node :: "python \<Rightarrow> event \<Rightarrow> research_state \<Rightarrow> research_state" where
  "planning_node py ev state0 =
     (let state = state0\<lparr>current_step := PLANNING\<rparr>;
          state = (if start_time state = None \<or> start_time state = Some []
                   then state\<lparr>start_time := Some (clock ev)\<rparr> else state)
      in planner_execute py (planner_w ev) state)"

definition quality_assessment_node :: "event \<Rightarrow> research_state \<Rightarrow> research_state" where
  "quality_assessment_node ev state =
     quality_execute (ratings_w ev) (state\<lparr>current_step := QUALITY_ASSESSMENT\<rparr>)"

definition report_generation_node ::
  "python \<Rightarrow> event \<Rightarrow> research_state \<Rightarrow> research_state" where
  "report_generation_node py ev state =
     generator_execute py (generator_w ev) (state\<lparr>current_step := REPORT_GENERATION\<rparr>)"

definition synthesis_node :: "python \<Rightarrow> event \<Rightarrow> research_state \<Rightarrow> research_state" where
  "synthesis_node py ev state =
     synth_execute py (synth_w ev) (state\<lparr>current_step := REPORT_SYNTHESIS\<rparr>)"

datatype node =
  planner | parallel_research | quality_assessor | report_generator | synthesizer
  | error_recovery

datatype target = Node node | END

text \<open>
  A node runs on the record and returns the next record; \<open>node_raises\<close> stands for an
  exception that escapes the node (none of the agents' own handlers caught it).
\<close>

definition run_node :: "python \<Rightarrow> event \<Rightarrow> node \<Rightarrow> research_state \<Rightarrow> exn + research_state" where
  "run_node py ev n state =
     (case node_raises ev of
        Some e \<Rightarrow> Inl e
      | None \<Rightarrow>
          Inr (case n of
                 planner \<Rightarrow> planning_node py ev state
               | parallel_research \<Rightarrow> parallel_research_node (py_hash py) (research_w ev) state
               | quality_assessor \<Rightarrow> quality_assessment_node ev state
               | report_generator \<Rightarrow> report_generation_node py ev state
               | synthesizer \<Rightarrow> synthesis_node py ev state
               | error_recovery \<Rightarrow> error_recovery_node py state))"

text \<open>The edges of \<^verbatim>\<open>_create_workflow\<close>; the one conditional edge asks the router.\<close>

definition path_map :: "(string \<times> node) list" where
  "path_map =
     [(''generate_report'', report_generator),
      (''retry_research'', parallel_research),
      (''replan'', planner),
      (''error'', error_recovery)]"

definition next_node :: "node \<Rightarrow> research_state \<Rightarrow> exn + target" where
  "next_node n state =
     (case n of
        planner \<Rightarrow> Inr (Node parallel_research)
      | parallel_research \<Rightarrow> Inr (Node quality_assessor)
      | quality_assessor \<Rightarrow>
          (case map_of path_map (quality_router state) of
             Some n' \<Rightarrow> Inr (Node n')
           | None \<Rightarrow> Inl (Exception (quality_router state)))
      | report_generator \<Rightarrow> Inr (Node synthesizer)
      | synthesizer \<Rightarrow> Inr END
      | error_recovery \<Rightarrow> Inr END)"

text \<open>
  \<^verbatim>\<open>workflow.ainvoke\<close>: the graph library runs the entry node, follows the edges and
  stops at \<^verbatim>\<open>END\<close>. The record a node returns replaces the current record (every
  node returns all keys). The library counts the steps and raises its recursion error
  when a run has not reached \<^verbatim>\<open>END\<close> by the time the count reaches the configured
  limit, so that a run executes fewer nodes than the limit (the workflow passes no
  configuration, so the library's default limit applies). \<open>fuel\<close> is the number of
  nodes that may still run, \<open>k\<close> the number of steps done.

  The \<^verbatim>\<open>errors\<close> list of the record passed in is one list object for the whole run:
  every handler appends to it in place. A run that ends in an exception therefore leaves
  the caller's list holding the errors of the run so far; the exceptional result carries
  them next to the exception.
\<close>

record graph_config =
  recursion_limit :: nat
  recursion_error :: exn

fun run_graph ::
  "python \<Rightarrow> exn \<Rightarrow> (nat \<Rightarrow> event) \<Rightarrow> nat \<Rightarrow> nat \<Rightarrow> node \<Rightarrow> research_state
     \<Rightarrow> (exn \<times> error_info list) + research_state" where
  "run_graph py limit_error world 0 k n state = Inl (limit_error, errors state)"
| "run_graph py limit_error world (Suc fuel) k n state =
     (case run_node py (world k) n state of
        Inl e \<Rightarrow> Inl (e, errors state)
      | Inr state' \<Rightarrow>
          (case next_node n state' of
             Inl e \<Rightarrow> Inl (e, errors state')
           | Inr END \<Rightarrow> Inr state'
           | Inr (Node n') \<Rightarrow> run_graph py limit_error world fuel (Suc k) n' state'))"

definition ainvoke ::
  "python \<Rightarrow> graph_config \<Rightarrow> (nat \<Rightarrow> event) \<Rightarrow> research_state
     \<Rightarrow> (exn \<times> error_info list) + research_state" where
  "ainvoke py cfg world initial_state' =
     run_graph py (recursion_error cfg) world (recursion_limit cfg - 1) 0 planner initial_state'"

text \<open>
  \<^verbatim>\<open>ResearchWorkflow.execute\<close>; \<open>now\<close> is the clock read in the handler, and
  \<^verbatim>\<open>initial_state.get("errors", [])\<close> there is the caller's list as the run left it.
\<close>

definition execute ::
  "python \<Rightarrow> graph_config \<Rightarrow> (nat \<Rightarrow> event) \<Rightarrow> string \<Rightarrow> research_state \<Rightarrow> research_state" where
  "execute py cfg world now initial_state' =
     (case ainvoke py cfg world initial_state' of
        Inr final_state \<Rightarrow> final_state
      | Inl (e, run_errors) \<Rightarrow>
          initial_state'\<lparr>final_report := Some (''Workflow execution failed: '' @ str_exn e),
                         errors := run_errors @
                           [\<lparr>etype = ''workflow_execution_failed'', message = str_exn e,
                             step = ''workflow_execution''\<rparr>],
                         current_step := REPORT_COMPLETE,
                         end_time := Some now\<rparr>)"

text \<open>The record the request handler builds for a topic (app.py, \<^verbatim>\<open>conduct_research\<close>).\<close>

definition initial_state :: "string \<Rightarrow> string \<Rightarrow> research_state" where
  "initial_state topic' now =
     \<lparr>topic = topic',
      research_plan = None,
      research_questions = [],
      internal_sources = [],
      external_sources = [],
      all_sources = [],
      quality_assessment = None,
      quality_score = 0,
      report_sections = [],
      final_report = None,
      current_step = INITIALIZED,
      iteration_count = 0,
      errors = [],
      start_time = Some now,
      end_time = None,
      processing_time = None\<rparr>"

section \<open>Concrete inputs used in the examples\<close>

definition web_page :: source where
  "web_page =
     \<lparr>content = replicate 250 (CHR ''x''),
      title = ''A web page'',
      url = Some ''https://example.org/a'',
      source_type = ''external'',
      relevance_score = 0.5,
      credibility_score = 0.9,
      question = ''What is X?'',
      metadata = [(''domain'', ''example.org'')]\<rparr>"

definition failure :: "string \<Rightarrow> error_info" where
  "failure kind = \<lparr>etype = kind, message = ''boom'', step = ''planning''\<rparr>"

definition python0 :: python where
  "python0 =
     \<lparr>py_isspace = (\<lambda>c. let n = (of_char c :: nat)
                       in (9 \<le> n \<and> n \<le> 13) \<or> (28 \<le> n \<and> n \<le> 32) \<or> n = 133 \<or> n = 160),
      py_isdigit = (\<lambda>c. let n = (of_char c :: nat)
                       in (48 \<le> n \<and> n \<le> 57) \<or> n = 178 \<or> n = 179 \<or> n = 185),
      py_hash = (\<lambda>s. int (length s)),
      format_2f = (\<lambda>x. ''0.00''),
      str_float = (\<lambda>x. ''0.0''),
      repr_list = (\<lambda>xs. ''['' @ join '', '' (map (\<lambda>x. [CHR 0x27] @ x @ [CHR 0x27]) xs) @ '']''),
      iso_seconds = (\<lambda>a b. Some 1)\<rparr>"

definition seven_questions :: string where
  "seven_questions = concat (map (\<lambda>n. str_nat n @ ''. Why?'' @ [CHR 0x0A]) [1..<8])"

definition first_hit :: source where
  "first_hit = web_page\<lparr>source_type := ''internal'', url := None, relevance_score := 0.2\<rparr>"

definition copy_hit :: source where
  "copy_hit = first_hit\<lparr>title := ''A copy'', relevance_score := 0.8\<rparr>"

definition other_hit :: source where
  "other_hit = first_hit\<lparr>content := ''other'', relevance_score := 0.5\<rparr>"

definition failing_planner :: planner_world where
  "failing_planner =
     \<lparr>questions_completion = Inl (Exception ''OpenAI API error: timeout''),
      internal_preview = 0, external_preview = 0\<rparr>"

definition one_question_planner :: planner_world where
  "one_question_planner =
     \<lparr>questions_completion = Inr ''1. What is X?'', internal_preview = 0,
      external_preview = 0\<rparr>"

definition quiet_event :: event where
  "quiet_event =
     \<lparr>clock = ''2026-11-04T10:00:00'',
      planner_w = one_question_planner,
      research_w =
        \<lparr>internal_w = \<lparr>internal_search = (\<lambda>q. Inr []), internal_fault = None\<rparr>,
         internal_escapes = None,
         external_w = \<lparr>external_search = (\<lambda>q. Inr []), external_fault = None\<rparr>,
         external_escapes = None\<rparr>,
      ratings_w = (\<lambda>q. NotAFloat),
      generator_w = \<lparr>section_completion = (\<lambda>name. Inr ''Some text.''), generator_fault = None\<rparr>,
      synth_w =
        \<lparr>current_date = ''November 04, 2026'', now_iso = ''2026-11-04T10:05:00'',
         post_completion = Inr ''# Research Report'', synth_fault = None\<rparr>,
      node_raises = None\<rparr>"

definition default_config :: graph_config where
  "default_config =
     \<lparr>recursion_limit = 25,
      recursion_error = Exception ''Recursion limit of 25 reached without hitting a stop condition.''\<rparr>"


definition replan_world :: "nat \<Rightarrow> event" where
  "replan_world k = (if k = 0 then quiet_event else quiet_event\<lparr>planner_w := failing_planner\<rparr>)"

text \<open>A research pass in which neither path raises and no search returns a hit.\<close>

definition finds_nothing :: "research_world \<Rightarrow> bool" where
  "finds_nothing w \<longleftrightarrow>
     internal_escapes w = None \<and> external_escapes w = None
     \<and> internal_fault (internal_w w) = None \<and> external_fault (external_w w) = None
     \<and> (\<forall>q. internal_search (internal_w w) q = Inr [])
     \<and> (\<forall>q. external_search (external_w w) q = Inr [])"


section \<open>Properties of the router\<close>

lemma str_in_iff_sublist: "str_in needle hay \<longleftrightarrow> sublist needle hay"
  by (induction hay) (auto simp: sublist_Cons_right)

lemma critical_errors_empty_iff:
  "critical_errors state = [] \<longleftrightarrow> (\<forall>e \<in> set (errors state). \<not> sublist ''critical'' (etype e))"
  by (simp add: critical_errors_def filter_empty_conv str_in_iff_sublist)

text \<open>
  Claim C1. The quality router returns exactly one of the four routes
  \<^verbatim>\<open>error\<close>, \<^verbatim>\<open>generate_report\<close>, \<^verbatim>\<open>retry_research\<close>, \<^verbatim>\<open>replan\<close>, decided in
  this order: an error whose kind contains the substring \<^verbatim>\<open>critical\<close> gives
  \<^verbatim>\<open>error\<close>; otherwise an iteration count of at least 3 gives \<^verbatim>\<open>generate_report\<close>
  whatever the quality score (also for score 0); otherwise a score of at least 0.7 gives
  \<^verbatim>\<open>generate_report\<close>; otherwise a score of at least 0.4 gives \<^verbatim>\<open>retry_research\<close>;
  otherwise \<^verbatim>\<open>replan\<close>. The route depends on nothing but the errors, the iteration
  count and the quality score of the record: two records that agree on these three get
  the same route.
\<close>

theorem quality_router_priority:
  "quality_router s \<in> {''error'', ''generate_report'', ''retry_research'', ''replan''}
   \<and> ((\<exists>e \<in> set (errors s). sublist ''critical'' (etype e)) \<longrightarrow> quality_router s = ''error'')
   \<and> ((\<forall>e \<in> set (errors s). \<not> sublist ''critical'' (etype e)) \<longrightarrow>
        (iteration_count s \<ge> 3 \<longrightarrow> quality_router s = ''generate_report'')
      \<and> (iteration_count s < 3 \<and> quality_score s \<ge> 0.7 \<longrightarrow>
            quality_router s = ''generate_report'')
      \<and> (iteration_count s < 3 \<and> quality_score s < 0.7 \<and> quality_score s \<ge> 0.4 \<longrightarrow>
            quality_router s = ''retry_research'')
      \<and> (iteration_count s < 3 \<and> quality_score s < 0.4 \<longrightarrow> quality_router s = ''replan''))
   \<and> (\<forall>t. errors t = errors s \<and> iteration_count t = iteration_count s
            \<and> quality_score t = quality_score s \<longrightarrow> quality_router t = quality_router s)"
proof -
  have range: "quality_router s \<in> {''error'', ''generate_report'', ''retry_research'', ''replan''}"
    by (simp add: quality_router_def)
  have crit: "(\<exists>e \<in> set (errors s). sublist ''critical'' (etype e)) \<longrightarrow> quality_router s = ''error''"
    using critical_errors_empty_iff [of s] by (auto simp: quality_router_def)
  have rest: "(\<forall>e \<in> set (errors s). \<not> sublist ''critical'' (etype e)) \<longrightarrow>
        (iteration_count s \<ge> 3 \<longrightarrow> quality_router s = ''generate_report'')
      \<and> (iteration_count s < 3 \<and> quality_score s \<ge> 0.7 \<longrightarrow>
            quality_router s = ''generate_report'')
      \<and> (iteration_count s < 3 \<and> quality_score s < 0.7 \<and> quality_score s \<ge> 0.4 \<longrightarrow>
            quality_router s = ''retry_research'')
      \<and> (iteration_count s < 3 \<and> quality_score s < 0.4 \<longrightarrow> quality_router s = ''replan'')"
  proof
    assume "\<forall>e \<in> set (errors s). \<not> sublist ''critical'' (etype e)"
    then have "critical_errors s = []"
      by (simp add: critical_errors_empty_iff)
    then show "(iteration_count s \<ge> 3 \<longrightarrow> quality_router s = ''generate_report'')
      \<and> (iteration_count s < 3 \<and> quality_score s \<ge> 0.7 \<longrightarrow>
            quality_router s = ''generate_report'')
      \<and> (iteration_count s < 3 \<and> quality_score s < 0.7 \<and> quality_score s \<ge> 0.4 \<longrightarrow>
            quality_router s = ''retry_research'')
      \<and> (iteration_count s < 3 \<and> quality_score s < 0.4 \<longrightarrow> quality_router s = ''replan'')"
      by (simp add: quality_router_def)
  qed
  have pure: "\<forall>t. errors t = errors s \<and> iteration_count t = iteration_count s
            \<and> quality_score t = quality_score s \<longrightarrow> quality_router t = quality_router s"
    by (simp add: quality_router_def critical_errors_def)
  from range crit rest pure show ?thesis by blast
qed

theorem quality_router_priority_witness:
  "quality_router ((initial_state ''ai'' ''t0'')\<lparr>iteration_count := 3\<rparr>) = ''generate_report''
   \<and> quality_router ((initial_state ''ai'' ''t0'')
        \<lparr>errors := [\<lparr>etype = ''critical_failure'', message = [], step = []\<rparr>]\<rparr>) = ''error''"
proof -
  let ?capped = "(initial_state ''ai'' ''t0'')\<lparr>iteration_count := 3\<rparr>"
  let ?broken = "(initial_state ''ai'' ''t0'')
        \<lparr>errors := [\<lparr>etype = ''critical_failure'', message = [], step = []\<rparr>]\<rparr>"
  have none: "\<forall>e \<in> set (errors ?capped). \<not> sublist ''critical'' (etype e)"
    by (simp add: initial_state_def)
  have cap: "iteration_count ?capped \<ge> 3"
    by simp
  have some: "\<exists>e \<in> set (errors ?broken). sublist ''critical'' (etype e)"
    by (simp add: str_in_iff_sublist [symmetric])
  from quality_router_priority [of ?capped] none cap
  have "quality_router ?capped = ''generate_report''" by blast
  moreover from quality_router_priority [of ?broken] some
  have "quality_router ?broken = ''error''" by blast
  ultimately show ?thesis by blast
qed

section \<open>The fan-in of the parallel research node\<close>

lemma merge_research_internal_sources:
  "internal_sources (merge_research state ir er) =
     (case ir of Inl e \<Rightarrow> [] | Inr r \<Rightarrow> internal_sources r)"
  by (simp add: merge_research_def Let_def split: sum.splits)

lemma merge_research_external_sources:
  "external_sources (merge_research state ir er) =
     (case er of Inl e \<Rightarrow> [] | Inr r \<Rightarrow> external_sources r)"
  by (simp add: merge_research_def Let_def split: sum.splits)

lemma merge_research_errors:
  "errors (merge_research state ir er) =
     errors state
     @ (case ir of
          Inl e \<Rightarrow> [\<lparr>etype = ''internal_research_failed'', message = str_exn e,
                     step = ''internal_research''\<rparr>]
        | Inr r \<Rightarrow> [])
     @ (case er of
          Inl e \<Rightarrow> [\<lparr>etype = ''external_research_failed'', message = str_exn e,
                     step = ''external_research''\<rparr>]
        | Inr r \<Rightarrow> [])"
  by (simp add: merge_research_def Let_def split: sum.splits)

lemma merge_research_current_step:
  "current_step (merge_research state ir er) = RESEARCH_COMPLETE"
  by (simp add: merge_research_def Let_def split: sum.splits)

lemma merge_research_frame:
  "topic (merge_research state ir er) = topic state"
  "research_questions (merge_research state ir er) = research_questions state"
  "iteration_count (merge_research state ir er) = iteration_count state"
  "quality_score (merge_research state ir er) = quality_score state"
  "quality_assessment (merge_research state ir er) = quality_assessment state"
  "final_report (merge_research state ir er) = final_report state"
  by (simp_all add: merge_research_def Let_def split: sum.splits)

lemma parallel_research_node_internal_sources:
  "internal_sources (parallel_research_node hash w s) =
     (case internal_escapes w of
        Some e \<Rightarrow> []
      | None \<Rightarrow> internal_sources
                 (internal_execute hash (internal_w w) (s\<lparr>current_step := INTERNAL_RESEARCH\<rparr>)))"
  by (simp add: parallel_research_node_def Let_def merge_research_internal_sources
           split: option.splits)

lemma parallel_research_node_external_sources:
  "external_sources (parallel_research_node hash w s) =
     (case external_escapes w of
        Some e \<Rightarrow> []
      | None \<Rightarrow> external_sources
                 (external_execute (external_w w) (s\<lparr>current_step := INTERNAL_RESEARCH\<rparr>)))"
  by (simp add: parallel_research_node_def Let_def merge_research_external_sources
           split: option.splits)

text \<open>
  Claim C4. In the parallel research node the two research paths are isolated from each
  other's failure. When the internal task ends in an exception, the merged record has an
  empty internal source list and one more error of kind \<^verbatim>\<open>internal_research_failed\<close>
  with step \<^verbatim>\<open>internal_research\<close> and the exception's text, and its external source
  list is exactly the one the external path returned; symmetrically for the external task.
  The merge always happens (it ends in \<^verbatim>\<open>RESEARCH_COMPLETE\<close>), the errors recorded
  before are kept, and in the node itself a path that does not fail hands over exactly the
  list its agent computed, whatever the other path did.
\<close>

theorem research_paths_failure_isolated:
  "(ir = Inl e \<longrightarrow>
      internal_sources (merge_research state ir er) = []
    \<and> \<lparr>etype = ''internal_research_failed'', message = str_exn e,
        step = ''internal_research''\<rparr> \<in> set (errors (merge_research state ir er))
    \<and> external_sources (merge_research state ir er) =
        (case er of Inl e' \<Rightarrow> [] | Inr r \<Rightarrow> external_sources r))
   \<and> (er = Inl e \<longrightarrow>
      external_sources (merge_research state ir er) = []
    \<and> \<lparr>etype = ''external_research_failed'', message = str_exn e,
        step = ''external_research''\<rparr> \<in> set (errors (merge_research state ir er))
    \<and> internal_sources (merge_research state ir er) =
        (case ir of Inl e' \<Rightarrow> [] | Inr r \<Rightarrow> internal_sources r))
   \<and> prefix (errors state) (errors (merge_research state ir er))
   \<and> current_step (merge_research state ir er) = RESEARCH_COMPLETE
   \<and> (external_escapes w = None \<longrightarrow>
        external_sources (parallel_research_node hash w s) =
        external_sources
          (external_execute (external_w w) (s\<lparr>current_step := INTERNAL_RESEARCH\<rparr>)))
   \<and> (internal_escapes w = None \<longrightarrow>
        internal_sources (parallel_research_node hash w s) =
        internal_sources
          (internal_execute hash (internal_w w) (s\<lparr>current_step := INTERNAL_RESEARCH\<rparr>)))"
proof -
  have int: "ir = Inl e \<longrightarrow>
      internal_sources (merge_research state ir er) = []
    \<and> \<lparr>etype = ''internal_research_failed'', message = str_exn e,
        step = ''internal_research''\<rparr> \<in> set (errors (merge_research state ir er))
    \<and> external_sources (merge_research state ir er) =
        (case er of Inl e' \<Rightarrow> [] | Inr r \<Rightarrow> external_sources r)"
    by (simp add: merge_research_internal_sources merge_research_external_sources
          merge_research_errors)
  have ext: "er = Inl e \<longrightarrow>
      external_sources (merge_research state ir er) = []
    \<and> \<lparr>etype = ''external_research_failed'', message = str_exn e,
        step = ''external_research''\<rparr> \<in> set (errors (merge_research state ir er))
    \<and> internal_sources (merge_research state ir er) =
        (case ir of Inl e' \<Rightarrow> [] | Inr r \<Rightarrow> internal_sources r)"
    by (simp add: merge_research_internal_sources merge_research_external_sources
          merge_research_errors)
  have kept: "prefix (errors state) (errors (merge_research state ir er))"
    by (simp add: merge_research_errors)
  have complete: "current_step (merge_research state ir er) = RESEARCH_COMPLETE"
    by (rule merge_research_current_step)
  have node_ext: "external_escapes w = None \<longrightarrow>
        external_sources (parallel_research_node hash w s) =
        external_sources
          (external_execute (external_w w) (s\<lparr>current_step := INTERNAL_RESEARCH\<rparr>))"
    by (simp add: parallel_research_node_external_sources)
  have node_int: "internal_escapes w = None \<longrightarrow>
        internal_sources (parallel_research_node hash w s) =
        internal_sources
          (internal_execute hash (internal_w w) (s\<lparr>current_step := INTERNAL_RESEARCH\<rparr>))"
    by (simp add: parallel_research_node_internal_sources)
  from int ext kept complete node_ext node_int show ?thesis by blast
qed

text \<open>
  A pass in which the internal task raises and the external agent finds one source that
  passes its filters: the merged record has no internal source, the external source, and
  the one typed error.
\<close>

theorem research_paths_failure_isolated_witness:
  "internal_sources
     (merge_research (initial_state ''ai'' ''t0'') (Inl (Exception ''store down''))
        (Inr ((initial_state ''ai'' ''t0'')\<lparr>external_sources := [web_page]\<rparr>))) = []
   \<and> external_sources
     (merge_research (initial_state ''ai'' ''t0'') (Inl (Exception ''store down''))
        (Inr ((initial_state ''ai'' ''t0'')\<lparr>external_sources := [web_page]\<rparr>))) = [web_page]
   \<and> \<lparr>etype = ''internal_research_failed'', message = ''store down'',
        step = ''internal_research''\<rparr>
      \<in> set (errors
          (merge_research (initial_state ''ai'' ''t0'') (Inl (Exception ''store down''))
            (Inr ((initial_state ''ai'' ''t0'')\<lparr>external_sources := [web_page]\<rparr>))))"
proof -
  let ?s = "initial_state ''ai'' ''t0''"
  let ?ir = "Inl (Exception ''store down'') :: exn + research_state"
  let ?er = "Inr (?s\<lparr>external_sources := [web_page]\<rparr>) :: exn + research_state"
  have "?ir = Inl (Exception ''store down'')" by simp
  with research_paths_failure_isolated [of ?ir "Exception ''store down''" ?s ?er]
  have "internal_sources (merge_research ?s ?ir ?er) = []
    \<and> \<lparr>etype = ''internal_research_failed'', message = str_exn (Exception ''store down''),
        step = ''internal_research''\<rparr> \<in> set (errors (merge_research ?s ?ir ?er))
    \<and> external_sources (merge_research ?s ?ir ?er) =
        (case ?er of Inl e' \<Rightarrow> [] | Inr r \<Rightarrow> external_sources r)"
    by blast
  then show ?thesis by simp
qed

section \<open>The error-recovery node\<close>

text \<open>
  Claim C10. The error-recovery node changes the record only when more than five errors
  have accumulated: then it sets \<^verbatim>\<open>final_report\<close> to the failure summary listing the
  error kinds and \<^verbatim>\<open>current_step\<close> to \<^verbatim>\<open>REPORT_COMPLETE\<close>, and nothing else. With
  five errors or fewer the record comes back unchanged in every field, so no report is
  set and \<^verbatim>\<open>current_step\<close> keeps its value. The only edge out of the node leads to
  \<^verbatim>\<open>END\<close>: a run that reaches the node stops there with the node's record.
\<close>

theorem error_recovery_node_frame:
  "(length (errors s) > 5 \<longrightarrow>
      error_recovery_node py s =
        s\<lparr>final_report :=
             Some (''Research failed due to multiple errors: ''
                   @ repr_list py (map etype (errors s))),
          current_step := REPORT_COMPLETE\<rparr>)
   \<and> (length (errors s) \<le> 5 \<longrightarrow>
        error_recovery_node py s = s
      \<and> final_report (error_recovery_node py s) = final_report s
      \<and> current_step (error_recovery_node py s) = current_step s)
   \<and> next_node error_recovery s = Inr END
   \<and> (node_raises (world k) = None \<longrightarrow>
        run_graph py limit_error world (Suc fuel) k error_recovery s =
          Inr (error_recovery_node py s))"
  by (simp add: error_recovery_node_def next_node_def run_node_def)

text \<open>
  With one recorded error the node hands back the fresh record as it is: no report,
  step still \<^verbatim>\<open>INITIALIZED\<close>. With six errors it writes the summary.
\<close>

theorem error_recovery_node_frame_witness:
  "final_report
     (error_recovery_node python0
        ((initial_state ''ai'' ''t0'')\<lparr>errors := [failure ''planning_failed'']\<rparr>)) = None
   \<and> current_step
     (error_recovery_node python0
        ((initial_state ''ai'' ''t0'')\<lparr>errors := [failure ''planning_failed'']\<rparr>)) = INITIALIZED
   \<and> current_step
     (error_recovery_node python0
        ((initial_state ''ai'' ''t0'')\<lparr>errors := replicate 6 (failure ''planning_failed'')\<rparr>))
       = REPORT_COMPLETE
   \<and> final_report
     (error_recovery_node python0
        ((initial_state ''ai'' ''t0'')\<lparr>errors := replicate 6 (failure ''planning_failed'')\<rparr>))
       \<noteq> None"
proof -
  let ?few = "(initial_state ''ai'' ''t0'')\<lparr>errors := [failure ''planning_failed'']\<rparr>"
  let ?many = "(initial_state ''ai'' ''t0'')\<lparr>errors := replicate 6 (failure ''planning_failed'')\<rparr>"
  have few: "length (errors ?few) \<le> 5" by simp
  have many: "length (errors ?many) > 5" by simp
  from error_recovery_node_frame [of ?few python0] few
  have a: "error_recovery_node python0 ?few = ?few" by blast
  from error_recovery_node_frame [of ?many python0] many
  have b: "error_recovery_node python0 ?many =
        ?many\<lparr>final_report :=
             Some (''Research failed due to multiple errors: ''
                   @ repr_list python0 (map etype (errors ?many))),
          current_step := REPORT_COMPLETE\<rparr>" by blast
  have "final_report ?few = None" "current_step ?few = INITIALIZED"
    by (simp_all add: initial_state_def)
  with a b show ?thesis by simp
qed

section \<open>The quality assessor's failure path\<close>

lemma assess_research_quality_no_questions:
  "assess_research_quality ratings [] internal external = Inl (Exception ''division by zero'')"
  by (simp add: assess_research_quality_def Let_def)

text \<open>
  Claim C5, as stated, asks for a default quality assessment with overall score 0.6 on
  the failure path. The code sets only the score: on a fresh record whose question list is
  empty the assessment fails (division by zero) and \<^verbatim>\<open>quality_assessment\<close> is still
  \<^verbatim>\<open>None\<close> afterwards.
\<close>

theorem quality_default_assessment_counterexample:
  "assess_research_quality (\<lambda>q. NotAFloat) (research_questions (initial_state ''ai'' ''t0''))
     (internal_sources (initial_state ''ai'' ''t0''))
     (external_sources (initial_state ''ai'' ''t0'')) = Inl (Exception ''division by zero'')
   \<and> quality_assessment (quality_execute (\<lambda>q. NotAFloat) (initial_state ''ai'' ''t0'')) = None
   \<and> quality_score (quality_execute (\<lambda>q. NotAFloat) (initial_state ''ai'' ''t0'')) = 0.6"
  by (simp add: quality_execute_def quality_handle_error_def initial_state_def
        assess_research_quality_no_questions)

text \<open>
  Claim C5, amended. If the quality assessor's \<^verbatim>\<open>execute\<close> fails internally it does
  not raise: it returns the record with one more error of kind
  \<^verbatim>\<open>quality_assessment_failed\<close>, \<^verbatim>\<open>quality_score\<close> set to the default 0.6,
  \<^verbatim>\<open>all_sources\<close> set to the internal sources followed by the external sources of the
  record, and \<^verbatim>\<open>current_step\<close> set to \<^verbatim>\<open>QUALITY_ASSESSED\<close>. Every other field is
  as before; in particular \<^verbatim>\<open>quality_assessment\<close> keeps its previous value and no
  default assessment is produced.
\<close>

theorem quality_failure_absorbed:
  "assess_research_quality ratings (research_questions s) (internal_sources s)
       (external_sources s) = Inl e \<Longrightarrow>
   quality_execute ratings s =
     s\<lparr>quality_score := 0.6,
       all_sources := internal_sources s @ external_sources s,
       errors := errors s @
         [\<lparr>etype = ''quality_assessment_failed'', message = str_exn e,
           step = ''quality_assessment''\<rparr>],
       current_step := QUALITY_ASSESSED\<rparr>
   \<and> quality_assessment (quality_execute ratings s) = quality_assessment s"
  by (simp add: quality_execute_def quality_handle_error_def)

theorem quality_failure_absorbed_witness:
  "quality_execute (\<lambda>q. NotAFloat) (initial_state ''ai'' ''t0'') =
     (initial_state ''ai'' ''t0'')
       \<lparr>quality_score := 0.6,
        all_sources := [],
        errors := [\<lparr>etype = ''quality_assessment_failed'', message = ''division by zero'',
                    step = ''quality_assessment''\<rparr>],
        current_step := QUALITY_ASSESSED\<rparr>"
proof -
  let ?s = "initial_state ''ai'' ''t0''"
  have "assess_research_quality (\<lambda>q. NotAFloat) (research_questions ?s) (internal_sources ?s)
       (external_sources ?s) = Inl (Exception ''division by zero'')"
    by (simp add: initial_state_def assess_research_quality_no_questions)
  from quality_failure_absorbed [OF this]
  have "quality_execute (\<lambda>q. NotAFloat) ?s =
     ?s\<lparr>quality_score := 0.6,
       all_sources := internal_sources ?s @ external_sources ?s,
       errors := errors ?s @
         [\<lparr>etype = ''quality_assessment_failed'', message = str_exn (Exception ''division by zero''),
           step = ''quality_assessment''\<rparr>],
       current_step := QUALITY_ASSESSED\<rparr>" by blast
  then show ?thesis by (simp add: initial_state_def)
qed

section \<open>Per-question coverage\<close>

lemma clamp_unit: "0 \<le> max 0 (min 1 x) \<and> max 0 (min 1 x) \<le> (1::real)"
  by simp

text \<open>
  Claim C6, as stated, lets the mean relevance of the question's sources stand in also
  when the completion is not a float. The code returns the constant 0.5 then: one source of
  relevance 0.9 and an answer that is no number give 0.5, not 0.9.
\<close>

theorem question_coverage_unparseable_counterexample:
  "question_coverage (\<lambda>q. NotAFloat) [web_page\<lparr>relevance_score := 0.9\<rparr>] ''What is X?'' = 0.5
   \<and> sum_list (map relevance_score [web_page\<lparr>relevance_score := 0.9\<rparr>])
       / real (length [web_page\<lparr>relevance_score := 0.9\<rparr>]) = 0.9"
  by (simp add: question_coverage_def calculate_question_coverage_def web_page_def)

text \<open>
  Claim C6, amended. For each research question: if no source is attributed to it, its
  coverage score is 0. Otherwise, if the completion for the coverage prompt reads as a
  float, the score is that rating clamped to the interval from 0 to 1; if the completion
  is not parseable as a float, the score is the constant 0.5; and if the call itself
  fails, the score is the mean relevance score of all sources attributed to the question.
\<close>

theorem question_coverage_cases:
  "(filter (\<lambda>s. question s = q) sources = [] \<longrightarrow> question_coverage ratings sources q = 0)
   \<and> (filter (\<lambda>s. question s = q) sources \<noteq> [] \<longrightarrow>
        (ratings q = Parsed x \<longrightarrow>
           question_coverage ratings sources q = max 0 (min 1 x)
         \<and> 0 \<le> question_coverage ratings sources q
         \<and> question_coverage ratings sources q \<le> 1)
      \<and> (ratings q = NotAFloat \<longrightarrow> question_coverage ratings sources q = 0.5)
      \<and> (ratings q = CallFailed e \<longrightarrow>
           question_coverage ratings sources q =
             sum_list (map relevance_score (filter (\<lambda>s. question s = q) sources))
               / real (length (filter (\<lambda>s. question s = q) sources))))"
  by (simp add: question_coverage_def calculate_question_coverage_def Let_def)

text \<open>
  A rating of 1.7 is clamped to 1; a failed call on one source of relevance 0.5 gives 0.5;
  a question without sources gives 0.
\<close>

theorem question_coverage_cases_witness:
  "question_coverage (\<lambda>q. Parsed 1.7) [web_page] ''What is X?'' = 1
   \<and> question_coverage (\<lambda>q. CallFailed (Exception ''timeout'')) [web_page] ''What is X?'' = 0.5
   \<and> question_coverage (\<lambda>q. Parsed 1.7) [web_page] ''Why?'' = 0"
proof -
  have none: "filter (\<lambda>s. question s = ''Why?'') [web_page] = []"
    by (simp add: web_page_def)
  have ne: "filter (\<lambda>s. question s = ''What is X?'') [web_page] \<noteq> []"
    by (simp add: web_page_def)
  have p: "(\<lambda>q::string. Parsed 1.7) ''What is X?'' = Parsed 1.7" by simp
  have f: "(\<lambda>q::string. CallFailed (Exception ''timeout'')) ''What is X?''
             = CallFailed (Exception ''timeout'')" by simp
  from question_coverage_cases
         [of "''What is X?''" "[web_page]" "\<lambda>q. Parsed 1.7" "1.7" "Exception ''timeout''"] ne p
  have a: "question_coverage (\<lambda>q. Parsed 1.7) [web_page] ''What is X?'' = max 0 (min 1 1.7)"
    by blast
  from question_coverage_cases
         [of "''What is X?''" "[web_page]" "\<lambda>q. CallFailed (Exception ''timeout'')" "1.7"
             "Exception ''timeout''"] ne f
  have b: "question_coverage (\<lambda>q. CallFailed (Exception ''timeout'')) [web_page] ''What is X?''
        = sum_list (map relevance_score (filter (\<lambda>s. question s = ''What is X?'') [web_page]))
               / real (length (filter (\<lambda>s. question s = ''What is X?'') [web_page]))"
    by blast
  from question_coverage_cases
         [of "''Why?''" "[web_page]" "\<lambda>q. Parsed 1.7" "1.7" "Exception ''timeout''"] none
  have c: "question_coverage (\<lambda>q. Parsed 1.7) [web_page] ''Why?'' = 0"
    by blast
  from a b c show ?thesis by (simp add: web_page_def)
qed

section \<open>Deduplication and ranking of internal sources\<close>

lemma deduplicate_loop_distinct:
  "distinct (map (\<lambda>s. hash (take 200 (content s))) (deduplicate_loop hash seen xs))
   \<and> (\<forall>x \<in> set (deduplicate_loop hash seen xs). hash (take 200 (content x)) \<notin> seen)"
proof (induction xs arbitrary: seen)
  case Nil
  show ?case by simp
next
  case (Cons src rest)
  show ?case
  proof (cases "hash (take 200 (content src)) \<in> seen")
    case True
    with Cons.IH [of seen] show ?thesis by (simp add: Let_def)
  next
    case False
    with Cons.IH [of "insert (hash (take 200 (content src))) seen"]
    show ?thesis by (auto simp: Let_def)
  qed
qed

lemma deduplicate_loop_first:
  "x \<in> set (deduplicate_loop hash seen xs) \<Longrightarrow>
     find (\<lambda>y. hash (take 200 (content y)) = hash (take 200 (content x))) xs = Some x"
proof (induction xs arbitrary: seen)
  case Nil
  then show ?case by simp
next
  case (Cons src rest)
  show ?case
  proof (cases "hash (take 200 (content src)) \<in> seen")
    case True
    with Cons.prems have mem: "x \<in> set (deduplicate_loop hash seen rest)"
      by (simp add: Let_def)
    with deduplicate_loop_distinct [of hash seen rest]
    have "hash (take 200 (content x)) \<notin> seen" by blast
    with True have "hash (take 200 (content src)) \<noteq> hash (take 200 (content x))" by auto
    with Cons.IH [OF mem] show ?thesis by simp
  next
    case False
    show ?thesis
    proof (cases "x = src")
      case True
      then show ?thesis by simp
    next
      case neq: False
      with False Cons.prems
      have mem: "x \<in> set (deduplicate_loop hash (insert (hash (take 200 (content src))) seen) rest)"
        by (simp add: Let_def)
      with deduplicate_loop_distinct
             [of hash "insert (hash (take 200 (content src))) seen" rest]
      have "hash (take 200 (content x)) \<noteq> hash (take 200 (content src))" by blast
      with Cons.IH [OF mem] show ?thesis by simp
    qed
  qed
qed

lemma deduplicate_loop_covers:
  "x \<in> set xs \<Longrightarrow>
     hash (take 200 (content x)) \<in> seen
     \<or> (\<exists>y \<in> set (deduplicate_loop hash seen xs).
           hash (take 200 (content y)) = hash (take 200 (content x)))"
proof (induction xs arbitrary: seen)
  case Nil
  then show ?case by simp
next
  case (Cons src rest)
  show ?case
  proof (cases "x = src")
    case True
    then show ?thesis by (auto simp: Let_def)
  next
    case False
    with Cons.prems have mem: "x \<in> set rest" by simp
    show ?thesis
    proof (cases "hash (take 200 (content src)) \<in> seen")
      case True
      with Cons.IH [OF mem, of seen] show ?thesis by (simp add: Let_def)
    next
      case False
      with Cons.IH [OF mem, of "insert (hash (take 200 (content src))) seen"]
      show ?thesis by (auto simp: Let_def)
    qed
  qed
qed

lemma distinct_keys_at_most_one:
  "distinct (map (\<lambda>s. hash (take 200 (content s))) xs) \<Longrightarrow>
     length (filter (\<lambda>x. take 200 (content x) = k) xs) \<le> 1"
proof (induction xs)
  case Nil
  show ?case by simp
next
  case (Cons x xs)
  show ?case
  proof (cases "take 200 (content x) = k")
    case True
    with Cons.prems have "\<forall>y \<in> set xs. take 200 (content y) \<noteq> k"
      by (auto simp: image_iff)
    then have "filter (\<lambda>x. take 200 (content x) = k) xs = []"
      by (simp add: filter_empty_conv)
    with True show ?thesis by simp
  next
    case False
    with Cons show ?thesis by simp
  qed
qed

lemma distinct_map_sort_key:
  "distinct (map f (sort_key k xs)) = distinct (map f xs)"
proof -
  have "mset (map f (sort_key k xs)) = mset (map f xs)" by simp
  then show ?thesis by (rule mset_eq_imp_distinct_iff)
qed

lemma distinct_map_take: "distinct (map f xs) \<Longrightarrow> distinct (map f (take n xs))"
  by (simp add: take_map [symmetric])

lemma sorted_desc_ordered:
  "sorted_wrt (\<lambda>a b. k a \<ge> k b) (sorted_desc k xs)"
proof -
  have "sorted (map (\<lambda>x. - k x) (sort_key (\<lambda>x. - k x) xs))" by (rule sorted_sort_key)
  then show ?thesis by (simp add: sorted_desc_def sorted_map)
qed

lemma sorted_wrt_take_desc:
  "sorted_wrt (\<lambda>a b. k a \<ge> k b) (take n (sorted_desc k xs))"
  using sorted_desc_ordered by (rule sorted_wrt_take)

lemma internal_execute_sources:
  "internal_fault w = None \<Longrightarrow>
     internal_sources (internal_execute hash w s) =
       take 20 (sorted_desc relevance_score (deduplicate_sources hash
         (collect_internal (research_questions s) (map (internal_search w) (research_questions s)))))"
  by (simp add: internal_execute_def Let_def)

lemma distinct_hash_exactly_one:
  "distinct (map (\<lambda>s. hash (take 200 (content s))) xs) \<Longrightarrow> y \<in> set xs \<Longrightarrow>
     length (filter (\<lambda>x. hash (take 200 (content x)) = hash (take 200 (content y))) xs) = 1"
proof (induction xs)
  case Nil
  then show ?case by simp
next
  case (Cons x xs)
  show ?case
  proof (cases "hash (take 200 (content x)) = hash (take 200 (content y))")
    case True
    with Cons.prems(1) have "\<forall>z \<in> set xs. hash (take 200 (content z)) \<noteq> hash (take 200 (content y))"
      by (auto simp: image_iff)
    then have "filter (\<lambda>x. hash (take 200 (content x)) = hash (take 200 (content y))) xs = []"
      by (simp add: filter_empty_conv)
    with True show ?thesis by simp
  next
    case False
    with Cons.prems have "y \<in> set xs" by auto
    with Cons False show ?thesis by simp
  qed
qed

text \<open>
  Claim C8. In the internal researcher, source candidates whose first 200 characters of
  content are identical collapse to one entry: among the deduplicated sources exactly one
  carries the hash of a candidate's 200-character prefix, it is the first candidate with
  that hash (exact match on the prefix, first occurrence kept), and the final list holds
  at most one entry for any given prefix. The surviving sources are sorted by relevance
  score, highest first, and only then cut to the first 20.
\<close>

theorem internal_deduplication_collapse:
  "(\<forall>k. length (filter (\<lambda>x. take 200 (content x) = k)
              (take 20 (sorted_desc relevance_score (deduplicate_sources hash cands)))) \<le> 1)
   \<and> (\<forall>a \<in> set cands.
         length (filter (\<lambda>x. hash (take 200 (content x)) = hash (take 200 (content a)))
                   (deduplicate_sources hash cands)) = 1)
   \<and> (\<forall>x \<in> set (deduplicate_sources hash cands).
         find (\<lambda>y. hash (take 200 (content y)) = hash (take 200 (content x))) cands = Some x)
   \<and> mset (sorted_desc relevance_score (deduplicate_sources hash cands))
        = mset (deduplicate_sources hash cands)
   \<and> sorted_wrt (\<lambda>a b. relevance_score a \<ge> relevance_score b)
        (sorted_desc relevance_score (deduplicate_sources hash cands))
   \<and> (internal_fault w = None \<longrightarrow>
        internal_sources (internal_execute hash w s) =
          take 20 (sorted_desc relevance_score (deduplicate_sources hash
            (collect_internal (research_questions s)
               (map (internal_search w) (research_questions s))))))"
proof -
  let ?unique = "deduplicate_sources hash cands"
  have d: "distinct (map (\<lambda>s. hash (take 200 (content s))) ?unique)"
    using deduplicate_loop_distinct [of hash "{}" cands] by (simp add: deduplicate_sources_def)
  then have "distinct (map (\<lambda>s. hash (take 200 (content s)))
                (take 20 (sorted_desc relevance_score ?unique)))"
    by (simp add: sorted_desc_def distinct_map_sort_key distinct_map_take)
  then have final: "\<forall>k. length (filter (\<lambda>x. take 200 (content x) = k)
              (take 20 (sorted_desc relevance_score ?unique))) \<le> 1"
    by (intro allI distinct_keys_at_most_one)
  have one: "\<forall>a \<in> set cands.
         length (filter (\<lambda>x. hash (take 200 (content x)) = hash (take 200 (content a)))
                   ?unique) = 1"
  proof
    fix a
    assume "a \<in> set cands"
    from deduplicate_loop_covers [OF this, of hash "{}"]
    obtain y where y: "y \<in> set ?unique"
        "hash (take 200 (content y)) = hash (take 200 (content a))"
      by (auto simp: deduplicate_sources_def)
    from distinct_hash_exactly_one [OF d y(1)] y(2)
    show "length (filter (\<lambda>x. hash (take 200 (content x)) = hash (take 200 (content a)))
                   ?unique) = 1"
      by simp
  qed
  have first: "\<forall>x \<in> set ?unique.
         find (\<lambda>y. hash (take 200 (content y)) = hash (take 200 (content x))) cands = Some x"
    by (simp add: deduplicate_sources_def deduplicate_loop_first)
  have perm: "mset (sorted_desc relevance_score ?unique) = mset ?unique"
    by (simp add: sorted_desc_def)
  have ordered: "sorted_wrt (\<lambda>a b. relevance_score a \<ge> relevance_score b)
        (sorted_desc relevance_score ?unique)"
    by (rule sorted_desc_ordered)
  have run: "internal_fault w = None \<longrightarrow>
        internal_sources (internal_execute hash w s) =
          take 20 (sorted_desc relevance_score (deduplicate_sources hash
            (collect_internal (research_questions s)
               (map (internal_search w) (research_questions s)))))"
    by (simp add: internal_execute_sources)
  from final one first perm ordered run show ?thesis by blast
qed

text \<open>
  Three candidates, the second a copy of the first in its first 200 characters: the copy
  is dropped, the first is kept, and the two survivors are ranked by relevance.
\<close>

theorem internal_deduplication_collapse_witness:
  "length (filter (\<lambda>x. py_hash python0 (take 200 (content x))
                        = py_hash python0 (take 200 (content copy_hit)))
             (deduplicate_sources (py_hash python0) [first_hit, copy_hit, other_hit])) = 1
   \<and> deduplicate_sources (py_hash python0) [first_hit, copy_hit, other_hit]
        = [first_hit, other_hit]
   \<and> take 20 (sorted_desc relevance_score
        (deduplicate_sources (py_hash python0) [first_hit, copy_hit, other_hit]))
        = [other_hit, first_hit]"
proof -
  have mem: "copy_hit \<in> set [first_hit, copy_hit, other_hit]" by simp
  from internal_deduplication_collapse [of "py_hash python0" "[first_hit, copy_hit, other_hit]"] mem
  have one: "length (filter (\<lambda>x. py_hash python0 (take 200 (content x))
                        = py_hash python0 (take 200 (content copy_hit)))
             (deduplicate_sources (py_hash python0) [first_hit, copy_hit, other_hit])) = 1"
    by blast
  have dedup: "deduplicate_sources (py_hash python0) [first_hit, copy_hit, other_hit]
        = [first_hit, other_hit]"
    by (simp add: deduplicate_sources_def python0_def first_hit_def copy_hit_def other_hit_def
          web_page_def Let_def)
  have ranked: "take 20 (sorted_desc relevance_score [first_hit, other_hit])
        = [other_hit, first_hit]"
    by (simp add: sorted_desc_def first_hit_def copy_hit_def other_hit_def web_page_def)
  from one dedup ranked show ?thesis by simp
qed

section \<open>Truncation of the source lists and of the references\<close>

lemma internal_execute_length: "length (internal_sources (internal_execute hash w s)) \<le> 20"
  by (simp add: internal_execute_def internal_handle_error_def Let_def split: option.splits)

lemma external_execute_length: "length (external_sources (external_execute w s)) \<le> 25"
  by (simp add: external_execute_def external_handle_error_def Let_def split: option.splits)

lemma reference_entries_length:
  "length (internal_reference_entries xs) \<le> 15" "length (external_reference_entries ys) \<le> 20"
  by (simp_all add: internal_reference_entries_def external_reference_entries_def)

lemma references_list_length: "length (references_list sources) \<le> 37"
proof -
  have "length (references_list sources)
      \<le> (1 + length (internal_reference_entries
                      (filter (\<lambda>s. source_type s = ''internal'') sources)))
       + (1 + length (external_reference_entries
                      (filter (\<lambda>s. source_type s = ''external'') sources)))"
    by (simp add: references_list_def Let_def)
  also have "\<dots> \<le> (1 + 15) + (1 + 20)"
    by (intro add_mono reference_entries_length) simp_all
  finally show ?thesis by simp
qed

text \<open>
  Claim C9. After each pass the internal researcher's source list has at most 20
  entries and the external researcher's at most 25, also in the record the parallel
  research node merges; the references section lists at most 15 internal and at most 20
  external sources (with the two headings, at most 37 lines).
\<close>

theorem truncation_bounds:
  "length (internal_sources (internal_execute hash iw s)) \<le> 20
   \<and> length (external_sources (external_execute ew s)) \<le> 25
   \<and> length (internal_sources (parallel_research_node hash w s)) \<le> 20
   \<and> length (external_sources (parallel_research_node hash w s)) \<le> 25
   \<and> length (internal_reference_entries xs) \<le> 15
   \<and> length (external_reference_entries ys) \<le> 20
   \<and> length (references_list sources) \<le> 37"
proof -
  have "length (internal_sources (parallel_research_node hash w s)) \<le> 20"
    by (simp add: parallel_research_node_internal_sources internal_execute_length
          split: option.splits)
  moreover have "length (external_sources (parallel_research_node hash w s)) \<le> 25"
    by (simp add: parallel_research_node_external_sources external_execute_length
          split: option.splits)
  ultimately show ?thesis
    by (simp add: internal_execute_length external_execute_length reference_entries_length
          references_list_length)
qed

text \<open>Forty sources of each kind: fifteen and twenty reference entries.\<close>

theorem truncation_bounds_witness:
  "length (internal_reference_entries (replicate 40 first_hit)) = 15
   \<and> length (external_reference_entries (replicate 40 web_page)) = 20
   \<and> length (references_list (replicate 40 first_hit @ replicate 40 web_page)) \<le> 37"
proof -
  have a: "length (internal_reference_entries (replicate 40 first_hit)) = 15"
    by (simp add: internal_reference_entries_def)
  have b: "length (external_reference_entries (replicate 40 web_page)) = 20"
    by (simp add: external_reference_entries_def)
  from truncation_bounds [where sources = "replicate 40 first_hit @ replicate 40 web_page"]
  have "length (references_list (replicate 40 first_hit @ replicate 40 web_page)) \<le> 37"
    by blast
  with a b show ?thesis by simp
qed

section \<open>The planner's questions\<close>

text \<open>
  The helpers are pinned by what they cut: \<open>split_char\<close> by its pieces, \<open>strip\<close> by
  the whitespace it removes, \<open>after_first_dot\<close> by the first dot; the loop of
  \<^verbatim>\<open>_generate_research_questions\<close> is a filter, a map and a filter.
\<close>

lemma begins_with_digit_or_dash:
  "((case line of c # _ \<Rightarrow> py_isdigit py c | [] \<Rightarrow> False) \<or> prefix ''-'' line)
     \<longleftrightarrow> (\<exists>c cs. line = c # cs \<and> (py_isdigit py c \<or> c = CHR ''-''))"
  by (cases line) (auto simp: prefix_Cons)

lemma parse_questions_loop:
  "parse_questions py ls =
     filter endswith_qmark
       (map (\<lambda>line. strip py (after_first_dot line))
         (filter (\<lambda>line. strip py line \<noteq> []
                     \<and> ((case line of c # _ \<Rightarrow> py_isdigit py c | [] \<Rightarrow> False)
                         \<or> prefix ''-'' line))
            ls))"
  by (induction ls) (simp_all add: Let_def)

lemma parse_questions_filter:
  "parse_questions py ls =
     filter (\<lambda>q. q \<noteq> [] \<and> last q = CHR ''?'')
       (map (\<lambda>line. strip py (after_first_dot line))
         (filter (\<lambda>line. strip py line \<noteq> []
                     \<and> (\<exists>c cs. line = c # cs \<and> (py_isdigit py c \<or> c = CHR ''-'')))
            ls))"
proof -
  have p: "(\<lambda>line. strip py line \<noteq> []
                     \<and> ((case line of c # _ \<Rightarrow> py_isdigit py c | [] \<Rightarrow> False)
                         \<or> prefix ''-'' line))
         = (\<lambda>line. strip py line \<noteq> []
                     \<and> (\<exists>c cs. line = c # cs \<and> (py_isdigit py c \<or> c = CHR ''-'')))"
    by (rule ext) (simp only: begins_with_digit_or_dash)
  have q: "endswith_qmark = (\<lambda>q. q \<noteq> [] \<and> last q = CHR ''?'')"
    by (rule ext) (simp add: endswith_qmark_def)
  show ?thesis
    unfolding parse_questions_loop p q ..
qed

lemma split_char_nonempty: "split_char sep s \<noteq> []"
  by (induction s) (auto split: list.splits)

lemma join_Cons: "ps \<noteq> [] \<Longrightarrow> join sep (p # ps) = p @ sep @ join sep ps"
  by (cases ps) simp_all

lemma join_split_char: "join [sep] (split_char sep s) = s"
proof (induction s)
  case Nil
  show ?case by simp
next
  case (Cons c cs)
  show ?case
  proof (cases "c = sep")
    case True
    with Cons.IH show ?thesis by (simp add: join_Cons split_char_nonempty)
  next
    case False
    obtain w ws where w: "split_char sep cs = w # ws"
      using split_char_nonempty [of sep cs] by (cases "split_char sep cs") auto
    with Cons.IH False show ?thesis by (cases ws) auto
  qed
qed

lemma split_char_pieces: "l \<in> set (split_char sep s) \<Longrightarrow> sep \<notin> set l"
proof (induction s arbitrary: l)
  case Nil
  then show ?case by simp
next
  case (Cons c cs)
  show ?case
  proof (cases "c = sep")
    case True
    with Cons show ?thesis by auto
  next
    case False
    obtain w ws where w: "split_char sep cs = w # ws"
      using split_char_nonempty [of sep cs] by (cases "split_char sep cs") auto
    with Cons.prems False have "l = c # w \<or> l \<in> set ws" by simp
    with Cons.IH [of w] Cons.IH [of l] w False show ?thesis by auto
  qed
qed

lemma strip_cut:
  "\<exists>pre post. s = pre @ strip py s @ post
      \<and> (\<forall>c \<in> set pre. py_isspace py c) \<and> (\<forall>c \<in> set post. py_isspace py c)
      \<and> (strip py s \<noteq> [] \<longrightarrow>
            \<not> py_isspace py (hd (strip py s)) \<and> \<not> py_isspace py (last (strip py s)))"
proof -
  let ?P = "py_isspace py"
  let ?pre = "takeWhile ?P s"
  let ?r = "dropWhile ?P s"
  let ?post = "rev (takeWhile ?P (rev ?r))"
  have st: "strip py s = rev (dropWhile ?P (rev ?r))" by (simp add: strip_def)
  have "rev ?r = takeWhile ?P (rev ?r) @ dropWhile ?P (rev ?r)" by simp
  then have "rev (rev ?r) = rev (takeWhile ?P (rev ?r) @ dropWhile ?P (rev ?r))" by simp
  then have r: "?r = strip py s @ ?post" by (simp only: rev_append rev_rev_ident st)
  have s: "s = ?pre @ strip py s @ ?post"
    using r takeWhile_dropWhile_id [of ?P s] by simp
  have pre: "\<forall>c \<in> set ?pre. ?P c" by (auto dest: set_takeWhileD)
  have post: "\<forall>c \<in> set ?post. ?P c" by (auto dest: set_takeWhileD)
  have ends: "strip py s \<noteq> [] \<longrightarrow> \<not> ?P (hd (strip py s)) \<and> \<not> ?P (last (strip py s))"
  proof
    assume ne: "strip py s \<noteq> []"
    then have d: "dropWhile ?P (rev ?r) \<noteq> []" by (simp add: st)
    have "last (strip py s) = hd (dropWhile ?P (rev ?r))"
      using d by (simp add: st last_rev)
    with d have l: "\<not> ?P (last (strip py s))" by (simp add: hd_dropWhile)
    from ne r have "?r \<noteq> []" by (metis append_is_Nil_conv)
    then have "\<not> ?P (hd ?r)" by (rule hd_dropWhile)
    moreover from ne r have "hd ?r = hd (strip py s)" by (metis hd_append2)
    ultimately show "\<not> ?P (hd (strip py s)) \<and> \<not> ?P (last (strip py s))" using l by simp
  qed
  from s pre post ends show ?thesis by blast
qed

lemma after_first_dot_none: "CHR ''.'' \<notin> set line \<Longrightarrow> after_first_dot line = line"
proof -
  assume "CHR ''.'' \<notin> set line"
  then have d: "dropWhile (\<lambda>c. c \<noteq> CHR ''.'') line = []"
    by (auto simp: dropWhile_eq_Nil_conv)
  show ?thesis unfolding after_first_dot_def by (simp only: d list.case)
qed

lemma after_first_dot_some:
  "CHR ''.'' \<notin> set a \<Longrightarrow> after_first_dot (a @ CHR ''.'' # b) = b"
proof -
  assume "CHR ''.'' \<notin> set a"
  then have d: "dropWhile (\<lambda>c. c \<noteq> CHR ''.'') (a @ CHR ''.'' # b) = CHR ''.'' # b"
    by (induction a) auto
  show ?thesis unfolding after_first_dot_def by (simp only: d list.case)
qed

lemma planner_execute_success:
  "questions_completion w = Inr response \<Longrightarrow>
     research_questions (planner_execute py w s) = generate_research_questions py response
     \<and> current_step (planner_execute py w s) = PLANNING_COMPLETE"
  by (simp add: planner_execute_def Let_def)

lemma one_question: "generate_research_questions python0 ''1. What is X?'' = [''What is X?'']"
  by code_simp

lemma nbsp_and_superscript_digit:
  "generate_research_questions python0
     (''1. What is X?'' @ [CHR 0xA0, CHR 0x0A, CHR 0xB2] @ ''. Why?'')
     = [''What is X?'', ''Why?'']"
  by code_simp

text \<open>
  Claim C7, as stated, promises at least four questions. Nothing in the planner enforces
  a lower bound: a completion with a single numbered question makes a successful
  invocation (step \<^verbatim>\<open>PLANNING_COMPLETE\<close>, no error) with one question.
\<close>

theorem planner_question_count_counterexample:
  "research_questions
     (planner_execute python0 one_question_planner (initial_state ''ai'' ''t0''))
     = [''What is X?'']
   \<and> current_step
     (planner_execute python0 one_question_planner (initial_state ''ai'' ''t0''))
     = PLANNING_COMPLETE
   \<and> errors
     (planner_execute python0 one_question_planner (initial_state ''ai'' ''t0'')) = []"
  by (simp add: planner_execute_def Let_def one_question initial_state_def
        one_question_planner_def)

text \<open>
  Claim C7, amended. For every topic, a successful Research Planner invocation produces
  at most 6 research questions (there is no lower bound: fewer than 4, or none, are
  possible), each ending in a question mark. They are exactly the first six, in order,
  of the texts obtained as follows: the completion is stripped and cut into lines; the
  lines that are not blank and begin with a digit or a dash are taken; of each the text
  after its first dot (the whole line when it has no dot) is stripped; the texts that end
  in a question mark are kept. The planner stores these questions and sets the step
  \<^verbatim>\<open>PLANNING_COMPLETE\<close>.
\<close>

theorem planner_questions_shape:
  "generate_research_questions py response =
     take 6
       (filter (\<lambda>q. q \<noteq> [] \<and> last q = CHR ''?'')
          (map (\<lambda>line. strip py (after_first_dot line))
             (filter (\<lambda>line. strip py line \<noteq> []
                         \<and> (\<exists>c cs. line = c # cs \<and> (py_isdigit py c \<or> c = CHR ''-'')))
                (split_char (CHR 0x0A) (strip py response)))))
   \<and> length (generate_research_questions py response) \<le> 6
   \<and> (\<forall>q \<in> set (generate_research_questions py response). q \<noteq> [] \<and> last q = CHR ''?'')
   \<and> (questions_completion w = Inr response \<longrightarrow>
        research_questions (planner_execute py w s) = generate_research_questions py response
      \<and> current_step (planner_execute py w s) = PLANNING_COMPLETE)
   \<and> join [CHR 0x0A] (split_char (CHR 0x0A) t) = t
   \<and> (\<forall>l \<in> set (split_char (CHR 0x0A) t). CHR 0x0A \<notin> set l)
   \<and> (\<exists>pre post. t = pre @ strip py t @ post
        \<and> (\<forall>c \<in> set pre. py_isspace py c) \<and> (\<forall>c \<in> set post. py_isspace py c)
        \<and> (strip py t \<noteq> [] \<longrightarrow>
              \<not> py_isspace py (hd (strip py t)) \<and> \<not> py_isspace py (last (strip py t))))
   \<and> (CHR ''.'' \<notin> set t \<longrightarrow> after_first_dot t = t)
   \<and> (CHR ''.'' \<notin> set a \<longrightarrow> after_first_dot (a @ CHR ''.'' # b) = b)"
proof -
  have shape: "generate_research_questions py response =
     take 6
       (filter (\<lambda>q. q \<noteq> [] \<and> last q = CHR ''?'')
          (map (\<lambda>line. strip py (after_first_dot line))
             (filter (\<lambda>line. strip py line \<noteq> []
                         \<and> (\<exists>c cs. line = c # cs \<and> (py_isdigit py c \<or> c = CHR ''-'')))
                (split_char (CHR 0x0A) (strip py response)))))"
    unfolding generate_research_questions_def parse_questions_filter ..
  have bound: "length (generate_research_questions py response) \<le> 6"
    by (simp add: generate_research_questions_def)
  have each: "\<forall>q \<in> set (generate_research_questions py response). q \<noteq> [] \<and> last q = CHR ''?''"
  proof
    fix q
    assume "q \<in> set (generate_research_questions py response)"
    then have "q \<in> set (filter (\<lambda>q. q \<noteq> [] \<and> last q = CHR ''?'')
          (map (\<lambda>line. strip py (after_first_dot line))
             (filter (\<lambda>line. strip py line \<noteq> []
                         \<and> (\<exists>c cs. line = c # cs \<and> (py_isdigit py c \<or> c = CHR ''-'')))
                (split_char (CHR 0x0A) (strip py response)))))"
      unfolding shape by (rule in_set_takeD)
    then show "q \<noteq> [] \<and> last q = CHR ''?''" by simp
  qed
  have run: "questions_completion w = Inr response \<longrightarrow>
        research_questions (planner_execute py w s) = generate_research_questions py response
      \<and> current_step (planner_execute py w s) = PLANNING_COMPLETE"
    using planner_execute_success by blast
  have cut: "join [CHR 0x0A] (split_char (CHR 0x0A) t) = t"
    by (rule join_split_char)
  have pieces: "\<forall>l \<in> set (split_char (CHR 0x0A) t). CHR 0x0A \<notin> set l"
    using split_char_pieces by blast
  note stripped = strip_cut [of t py]
  have nodot: "CHR ''.'' \<notin> set t \<longrightarrow> after_first_dot t = t"
    using after_first_dot_none by blast
  have dot: "CHR ''.'' \<notin> set a \<longrightarrow> after_first_dot (a @ CHR ''.'' # b) = b"
    using after_first_dot_some by blast
  from shape bound each run cut pieces stripped nodot dot show ?thesis by blast
qed

text \<open>
  Seven numbered questions in the completion: the first six are kept, in order.
\<close>

theorem planner_questions_shape_witness:
  "length (generate_research_questions python0 seven_questions) \<le> 6
   \<and> generate_research_questions python0 seven_questions = replicate 6 ''Why?''
   \<and> research_questions
       (planner_execute python0 one_question_planner (initial_state ''ai'' ''t0''))
       = [''What is X?'']"
proof -
  have six: "generate_research_questions python0 seven_questions = replicate 6 ''Why?''"
    by code_simp
  have ok: "questions_completion one_question_planner = Inr ''1. What is X?''"
    by (simp add: one_question_planner_def)
  from planner_questions_shape
         [of python0 "''1. What is X?''" one_question_planner "initial_state ''ai'' ''t0''"] ok
  have "research_questions
          (planner_execute python0 one_question_planner (initial_state ''ai'' ''t0''))
        = generate_research_questions python0 ''1. What is X?''"
    by blast
  moreover from planner_questions_shape [of python0 seven_questions]
  have "length (generate_research_questions python0 seven_questions) \<le> 6"
    by blast
  ultimately show ?thesis using six one_question by simp
qed

section \<open>The iteration count\<close>

lemma planner_execute_iteration_count:
  "iteration_count (planner_execute py w s) =
     (case questions_completion w of Inl e \<Rightarrow> iteration_count s
      | Inr r \<Rightarrow> iteration_count s + 1)"
  by (simp add: planner_execute_def planner_handle_error_def Let_def split: sum.splits)

lemma planning_node_iteration_count:
  "iteration_count (planning_node py ev s) =
     (case questions_completion (planner_w ev) of Inl e \<Rightarrow> iteration_count s
      | Inr r \<Rightarrow> iteration_count s + 1)"
  by (simp add: planning_node_def Let_def planner_execute_iteration_count split: sum.splits)

lemma parallel_research_node_iteration_count:
  "iteration_count (parallel_research_node hash w s) = iteration_count s"
  by (simp add: parallel_research_node_def Let_def merge_research_frame)

lemma quality_assessment_node_iteration_count:
  "iteration_count (quality_assessment_node ev s) = iteration_count s"
  by (simp add: quality_assessment_node_def quality_execute_def quality_handle_error_def
        split: sum.splits)

lemma report_generation_node_iteration_count:
  "iteration_count (report_generation_node py ev s) = iteration_count s"
  by (simp add: report_generation_node_def generator_execute_def generator_handle_error_def
        handle_insufficient_sources_def Let_def split: option.splits)

lemma synthesis_node_iteration_count:
  "iteration_count (synthesis_node py ev s) = iteration_count s"
  by (simp add: synthesis_node_def synth_execute_def synth_handle_error_def
        handle_empty_sections_def Let_def split: option.splits sum.splits)

lemma error_recovery_node_iteration_count:
  "iteration_count (error_recovery_node py s) = iteration_count s"
  by (simp add: error_recovery_node_def)

lemma run_node_iteration_count:
  "run_node py ev n s = Inr s' \<Longrightarrow>
     iteration_count s' =
       (if n = planner \<and> isl (questions_completion (planner_w ev)) = False
        then iteration_count s + 1 else iteration_count s)"
  by (cases n)
     (auto simp: run_node_def planning_node_iteration_count
        parallel_research_node_iteration_count quality_assessment_node_iteration_count
        report_generation_node_iteration_count synthesis_node_iteration_count
        error_recovery_node_iteration_count split: option.splits sum.splits)

lemma run_graph_iteration_count_mono:
  "run_graph py le world fuel k n s = Inr s' \<Longrightarrow> iteration_count s \<le> iteration_count s'"
proof (induction fuel arbitrary: k n s)
  case 0
  then show ?case by simp
next
  case (Suc fuel)
  from Suc.prems obtain s1 where s1: "run_node py (world k) n s = Inr s1"
    by (auto split: sum.splits)
  from run_node_iteration_count [OF s1] have le1: "iteration_count s \<le> iteration_count s1"
    by (simp split: if_splits)
  show ?case
  proof (cases "next_node n s1")
    case (Inl e)
    with Suc.prems s1 show ?thesis by simp
  next
    case (Inr t)
    show ?thesis
    proof (cases t)
      case END
      with Inr Suc.prems s1 le1 show ?thesis by simp
    next
      case (Node n')
      with Inr Suc.prems s1 have "run_graph py le world fuel (Suc k) n' s1 = Inr s'" by simp
      from Suc.IH [OF this] le1 show ?thesis by simp
    qed
  qed
qed

text \<open>
  What the code does with the count: the planner's success return adds 1, its failure
  handler adds nothing, the other nodes leave the count alone, so that it never decreases
  along a run.
\<close>

lemma iteration_count_frame:
  "(questions_completion w = Inr r \<longrightarrow>
      iteration_count (planner_execute py w s) = iteration_count s + 1)
   \<and> (questions_completion w = Inl e \<longrightarrow>
        iteration_count (planner_execute py w s) = iteration_count s
      \<and> errors (planner_execute py w s) =
          errors s @ [\<lparr>etype = ''planning_failed'', message = str_exn e, step = ''planning''\<rparr>]
      \<and> current_step (planner_execute py w s) = ERROR_RECOVERY)
   \<and> (n \<noteq> planner \<and> run_node py ev n s = Inr s' \<longrightarrow> iteration_count s' = iteration_count s)
   \<and> (run_graph py limit_error world fuel k n s = Inr s'' \<longrightarrow>
        iteration_count s \<le> iteration_count s'')"
proof -
  have ok: "questions_completion w = Inr r \<longrightarrow>
      iteration_count (planner_execute py w s) = iteration_count s + 1"
    by (simp add: planner_execute_iteration_count)
  have failed: "questions_completion w = Inl e \<longrightarrow>
        iteration_count (planner_execute py w s) = iteration_count s
      \<and> errors (planner_execute py w s) =
          errors s @ [\<lparr>etype = ''planning_failed'', message = str_exn e, step = ''planning''\<rparr>]
      \<and> current_step (planner_execute py w s) = ERROR_RECOVERY"
    by (simp add: planner_execute_def planner_handle_error_def)
  have others: "n \<noteq> planner \<and> run_node py ev n s = Inr s' \<longrightarrow>
      iteration_count s' = iteration_count s"
    using run_node_iteration_count [of py ev n s s'] by auto
  have mono: "run_graph py limit_error world fuel k n s = Inr s'' \<longrightarrow>
        iteration_count s \<le> iteration_count s''"
    using run_graph_iteration_count_mono by blast
  from ok failed others mono show ?thesis by blast
qed

section \<open>Errors the workflow writes\<close>

text \<open>
  No error kind written by the workflow contains \<^verbatim>\<open>critical\<close>; so on a record that
  starts without errors the router never takes the \<^verbatim>\<open>error\<close> route.
\<close>

lemma benign_kinds:
  "\<not> str_in ''critical'' ''planning_failed''"
  "\<not> str_in ''critical'' ''internal_research_failed''"
  "\<not> str_in ''critical'' ''external_research_failed''"
  "\<not> str_in ''critical'' ''quality_assessment_failed''"
  "\<not> str_in ''critical'' ''report_generation_failed''"
  "\<not> str_in ''critical'' ''report_synthesis_failed''"
  by code_simp+

lemma planning_node_critical:
  "critical_errors s = [] \<Longrightarrow> critical_errors (planning_node py ev s) = []"
  by (simp add: critical_errors_def planning_node_def planner_execute_def
        planner_handle_error_def Let_def benign_kinds split: sum.splits)

lemma internal_execute_errors:
  "errors (internal_execute hash w s) =
     errors s @ (case internal_fault w of
                   Some e \<Rightarrow> [\<lparr>etype = ''internal_research_failed'', message = str_exn e,
                               step = ''internal_research''\<rparr>]
                 | None \<Rightarrow> [])"
  by (simp add: internal_execute_def internal_handle_error_def Let_def split: option.splits)

lemma external_execute_errors:
  "errors (external_execute w s) =
     errors s @ (case external_fault w of
                   Some e \<Rightarrow> [\<lparr>etype = ''external_research_failed'', message = str_exn e,
                               step = ''external_research''\<rparr>]
                 | None \<Rightarrow> [])"
  by (simp add: external_execute_def external_handle_error_def Let_def split: option.splits)

lemma parallel_research_node_errors:
  "errors (parallel_research_node hash w s) =
     errors s
     @ (case internal_escapes w of Some e \<Rightarrow> []
        | None \<Rightarrow> (case internal_fault (internal_w w) of
                     Some e \<Rightarrow> [\<lparr>etype = ''internal_research_failed'', message = str_exn e,
                                 step = ''internal_research''\<rparr>]
                   | None \<Rightarrow> []))
     @ (case external_escapes w of Some e \<Rightarrow> []
        | None \<Rightarrow> (case external_fault (external_w w) of
                     Some e \<Rightarrow> [\<lparr>etype = ''external_research_failed'', message = str_exn e,
                                 step = ''external_research''\<rparr>]
                   | None \<Rightarrow> []))
     @ (case internal_escapes w of
          Some e \<Rightarrow> [\<lparr>etype = ''internal_research_failed'', message = str_exn e,
                      step = ''internal_research''\<rparr>]
        | None \<Rightarrow> [])
     @ (case external_escapes w of
          Some e \<Rightarrow> [\<lparr>etype = ''external_research_failed'', message = str_exn e,
                      step = ''external_research''\<rparr>]
        | None \<Rightarrow> [])"
  by (simp add: parallel_research_node_def Let_def merge_research_errors appended_def
        internal_execute_errors external_execute_errors split: option.splits)

lemma parallel_research_node_critical:
  "critical_errors s = [] \<Longrightarrow> critical_errors (parallel_research_node hash w s) = []"
  by (simp add: critical_errors_def parallel_research_node_errors benign_kinds
        split: option.splits)

lemma quality_assessment_node_critical:
  "critical_errors s = [] \<Longrightarrow> critical_errors (quality_assessment_node ev s) = []"
  by (simp add: critical_errors_def quality_assessment_node_def quality_execute_def
        quality_handle_error_def benign_kinds split: sum.splits)

lemma report_generation_node_critical:
  "critical_errors s = [] \<Longrightarrow> critical_errors (report_generation_node py ev s) = []"
  by (simp add: critical_errors_def report_generation_node_def generator_execute_def
        generator_handle_error_def handle_insufficient_sources_def Let_def benign_kinds
        split: option.splits)

lemma initial_state_critical: "critical_errors (initial_state topic' now) = []"
  by (simp add: critical_errors_def initial_state_def)

section \<open>Runs that the iteration cap does not stop\<close>

text \<open>
  The \<^verbatim>\<open>retry_research\<close> route leaves \<^verbatim>\<open>iteration_count\<close> alone, and so does a
  failed planning pass. When the first planning call fails the question list stays
  empty, every assessment fails with a division by zero and defaults the score to 0.6,
  and the run circles between research and assessment. When planning succeeds once and
  fails from then on while no source is found, the score is 0 and the run circles through
  the planner with the count stuck at 1. In both cases only the graph library's step
  limit stops the run, whatever that limit is.
\<close>

lemma collect_internal_nothing:
  "collect_internal qs (map (\<lambda>q. Inr []) qs) = []"
  by (induction qs) simp_all

lemma collect_external_nothing:
  "collect_external qs (map (\<lambda>q. Inr []) qs) = []"
  by (induction qs) simp_all

lemma parallel_research_node_questions:
  "research_questions (parallel_research_node hash w s) = research_questions s
   \<and> iteration_count (parallel_research_node hash w s) = iteration_count s"
  by (simp add: parallel_research_node_def Let_def merge_research_frame)

lemma parallel_research_node_nothing:
  assumes "finds_nothing w"
  shows "internal_sources (parallel_research_node hash w s) = []
         \<and> external_sources (parallel_research_node hash w s) = []"
proof -
  from assms have i: "internal_search (internal_w w) = (\<lambda>q. Inr [])"
    and e: "external_search (external_w w) = (\<lambda>q. Inr [])"
    by (auto simp: finds_nothing_def)
  from assms show ?thesis
    by (simp add: finds_nothing_def parallel_research_node_internal_sources
          parallel_research_node_external_sources internal_execute_def external_execute_def
          Let_def i e collect_internal_nothing collect_external_nothing
          deduplicate_sources_def sorted_desc_def filter_quality_sources_def)
qed

lemma quality_assessment_node_no_questions:
  "research_questions s = [] \<Longrightarrow>
     quality_score (quality_assessment_node ev s) = 0.6
     \<and> research_questions (quality_assessment_node ev s) = []
     \<and> iteration_count (quality_assessment_node ev s) = iteration_count s"
  by (simp add: quality_assessment_node_def quality_execute_def quality_handle_error_def
        assess_research_quality_def Let_def)

lemma gaps_without_sources: "identify_information_gaps qs [] = qs"
  by (simp add: identify_information_gaps_def)

lemma quality_assessment_node_no_sources:
  "research_questions s \<noteq> [] \<Longrightarrow> internal_sources s = [] \<Longrightarrow> external_sources s = [] \<Longrightarrow>
     quality_score (quality_assessment_node ev s) = 0
     \<and> research_questions (quality_assessment_node ev s) = research_questions s
     \<and> iteration_count (quality_assessment_node ev s) = iteration_count s"
  by (simp add: quality_assessment_node_def quality_execute_def assess_research_quality_def
        assess_source_diversity_def assess_content_coverage_def assess_source_credibility_def
        gaps_without_sources Let_def)

lemma planning_node_failed:
  "questions_completion (planner_w ev) = Inl e \<Longrightarrow>
     research_questions (planning_node py ev s) = research_questions s
     \<and> iteration_count (planning_node py ev s) = iteration_count s"
  by (simp add: planning_node_def planner_execute_def planner_handle_error_def Let_def)

lemma retry_loop_exhausts_limit:
  assumes quiet: "\<And>k. node_raises (world k) = None"
  shows "research_questions s = [] \<Longrightarrow> iteration_count s < 3 \<Longrightarrow> critical_errors s = [] \<Longrightarrow>
         n = parallel_research \<or> n = quality_assessor \<Longrightarrow>
         \<exists>errs. run_graph py le world fuel k n s = Inl (le, errs)"
proof (induction fuel arbitrary: k n s)
  case 0
  show ?case by simp
next
  case (Suc fuel)
  from Suc.prems(4) show ?case
  proof
    assume n: "n = parallel_research"
    let ?s1 = "parallel_research_node (py_hash py) (research_w (world k)) s"
    have "\<exists>errs. run_graph py le world fuel (Suc k) quality_assessor ?s1 = Inl (le, errs)"
      using Suc.prems(1,2)
      by (intro Suc.IH parallel_research_node_critical [OF Suc.prems(3)])
         (simp_all add: parallel_research_node_questions)
    with n quiet show ?thesis by (simp add: run_node_def next_node_def)
  next
    assume n: "n = quality_assessor"
    let ?s1 = "quality_assessment_node (world k) s"
    note q = quality_assessment_node_no_questions [OF Suc.prems(1), of "world k"]
    have c1: "critical_errors ?s1 = []"
      by (rule quality_assessment_node_critical [OF Suc.prems(3)])
    from q c1 Suc.prems(2)
    have next1: "next_node quality_assessor ?s1 = Inr (Node parallel_research)"
      by (simp add: next_node_def quality_router_def path_map_def)
    have "\<exists>errs. run_graph py le world fuel (Suc k) parallel_research ?s1 = Inl (le, errs)"
      using q Suc.prems(2) by (intro Suc.IH c1) simp_all
    with n quiet next1 show ?thesis by (simp add: run_node_def)
  qed
qed

lemma failed_first_planning_exhausts_limit:
  assumes quiet: "\<And>k. node_raises (world k) = None"
    and failed: "questions_completion (planner_w (world 0)) = Inl e"
  shows "\<exists>errs. ainvoke py cfg world (initial_state topic' t0) = Inl (recursion_error cfg, errs)"
proof (cases "recursion_limit cfg - 1")
  case 0
  then show ?thesis by (simp add: ainvoke_def)
next
  case (Suc fuel)
  let ?s1 = "planning_node py (world 0) (initial_state topic' t0)"
  from planning_node_failed [OF failed, of py "initial_state topic' t0"]
  have "research_questions ?s1 = []" "iteration_count ?s1 < 3"
    by (simp_all add: initial_state_def)
  moreover have "critical_errors ?s1 = []"
    by (rule planning_node_critical [OF initial_state_critical])
  ultimately
  have "\<exists>errs. run_graph py (recursion_error cfg) world fuel (Suc 0) parallel_research ?s1
      = Inl (recursion_error cfg, errs)"
    using quiet by (intro retry_loop_exhausts_limit) simp_all
  with Suc quiet show ?thesis by (simp add: ainvoke_def run_node_def next_node_def)
qed

lemma replan_loop_exhausts_limit:
  assumes quiet: "\<And>k. node_raises (world k) = None"
    and fails: "\<And>k. 0 < k \<Longrightarrow> isl (questions_completion (planner_w (world k)))"
    and idle: "\<And>k. finds_nothing (research_w (world k))"
  shows "0 < k \<Longrightarrow> research_questions s \<noteq> [] \<Longrightarrow> iteration_count s < 3 \<Longrightarrow>
         critical_errors s = [] \<Longrightarrow>
         n = planner \<or> n = parallel_research
           \<or> (n = quality_assessor \<and> internal_sources s = [] \<and> external_sources s = []) \<Longrightarrow>
         \<exists>errs. run_graph py le world fuel k n s = Inl (le, errs)"
proof (induction fuel arbitrary: k n s)
  case 0
  show ?case by simp
next
  case (Suc fuel)
  from Suc.prems(5) consider
      (plan) "n = planner" | (research) "n = parallel_research"
    | (assess) "n = quality_assessor" "internal_sources s = []" "external_sources s = []"
    by blast
  then show ?case
  proof cases
    case plan
    let ?s1 = "planning_node py (world k) s"
    from fails [OF Suc.prems(1)] obtain e
      where e: "questions_completion (planner_w (world k)) = Inl e"
      by (cases "questions_completion (planner_w (world k))") auto
    note f = planning_node_failed [OF e, of py s]
    have "\<exists>errs. run_graph py le world fuel (Suc k) parallel_research ?s1 = Inl (le, errs)"
      using f Suc.prems(2,3)
      by (intro Suc.IH planning_node_critical [OF Suc.prems(4)]) simp_all
    with plan quiet show ?thesis by (simp add: run_node_def next_node_def)
  next
    case research
    let ?s1 = "parallel_research_node (py_hash py) (research_w (world k)) s"
    note none = parallel_research_node_nothing
                  [OF idle [of k], where hash = "py_hash py" and s = s]
    have "\<exists>errs. run_graph py le world fuel (Suc k) quality_assessor ?s1 = Inl (le, errs)"
      using Suc.prems(2,3) none
      by (intro Suc.IH parallel_research_node_critical [OF Suc.prems(4)])
         (simp_all add: parallel_research_node_questions)
    with research quiet show ?thesis by (simp add: run_node_def next_node_def)
  next
    case assess
    let ?s1 = "quality_assessment_node (world k) s"
    note q = quality_assessment_node_no_sources [OF Suc.prems(2) assess(2,3), of "world k"]
    have c1: "critical_errors ?s1 = []"
      by (rule quality_assessment_node_critical [OF Suc.prems(4)])
    from q c1 Suc.prems(3)
    have next1: "next_node quality_assessor ?s1 = Inr (Node planner)"
      by (simp add: next_node_def quality_router_def path_map_def)
    have "\<exists>errs. run_graph py le world fuel (Suc k) planner ?s1 = Inl (le, errs)"
      using q Suc.prems(2,3) by (intro Suc.IH c1) simp_all
    with assess(1) quiet next1 show ?thesis by (simp add: run_node_def)
  qed
qed

lemma failed_replanning_exhausts_limit:
  assumes quiet: "\<And>k. node_raises (world k) = None"
    and fails: "\<And>k. 0 < k \<Longrightarrow> isl (questions_completion (planner_w (world k)))"
    and idle: "\<And>k. finds_nothing (research_w (world k))"
    and first: "questions_completion (planner_w (world 0)) = Inr response"
    and some: "generate_research_questions py response \<noteq> []"
  shows "\<exists>errs. ainvoke py cfg world (initial_state topic' t0) = Inl (recursion_error cfg, errs)"
proof (cases "recursion_limit cfg - 1")
  case 0
  then show ?thesis by (simp add: ainvoke_def)
next
  case (Suc fuel)
  let ?s1 = "planning_node py (world 0) (initial_state topic' t0)"
  from first some have "research_questions ?s1 \<noteq> []" "iteration_count ?s1 < 3"
    by (simp_all add: planning_node_def planner_execute_def Let_def initial_state_def)
  moreover have "critical_errors ?s1 = []"
    by (rule planning_node_critical [OF initial_state_critical])
  ultimately
  have "\<exists>errs. run_graph py (recursion_error cfg) world fuel (Suc 0) parallel_research ?s1
      = Inl (recursion_error cfg, errs)"
    by (intro replan_loop_exhausts_limit) (simp_all add: quiet fails idle)
  with Suc quiet show ?thesis by (simp add: ainvoke_def run_node_def next_node_def)
qed

lemma replan_world_ainvoke:
  "ainvoke python0 default_config replan_world (initial_state ''ai'' ''t0'') =
     Inl (recursion_error default_config,
          replicate 7 \<lparr>etype = ''planning_failed'', message = ''OpenAI API error: timeout'',
                        step = ''planning''\<rparr>)"
  by code_simp

text \<open>
  Claim C3 says that every invocation of the Research Planner's \<^verbatim>\<open>execute\<close>,
  successful or failed, increases \<^verbatim>\<open>iteration_count\<close> by exactly 1. The code's
  failure path does not: on the fresh record a failing completion leaves the count at 0
  (with the \<^verbatim>\<open>planning_failed\<close> error appended and the step set to
  \<^verbatim>\<open>ERROR_RECOVERY\<close>), where the success path of the same method gives 1. The
  router's cap on the count is thereby out of reach of failed passes: with one successful
  plan, planning failing afterwards and no source found, the run under the default limit
  of 25 steps goes through seven failed planning passes and is ended by the step limit.
\<close>

theorem planner_failure_leaves_iteration_count:
  "iteration_count (planner_execute python0 failing_planner (initial_state ''ai'' ''t0'')) = 0
   \<and> iteration_count
       (planner_execute python0 one_question_planner (initial_state ''ai'' ''t0'')) = 1
   \<and> errors (planner_execute python0 failing_planner (initial_state ''ai'' ''t0'')) =
       [\<lparr>etype = ''planning_failed'', message = ''OpenAI API error: timeout'',
         step = ''planning''\<rparr>]
   \<and> current_step (planner_execute python0 failing_planner (initial_state ''ai'' ''t0''))
       = ERROR_RECOVERY
   \<and> ainvoke python0 default_config replan_world (initial_state ''ai'' ''t0'') =
       Inl (recursion_error default_config,
            replicate 7 \<lparr>etype = ''planning_failed'', message = ''OpenAI API error: timeout'',
                          step = ''planning''\<rparr>)"
proof -
  have "questions_completion failing_planner = Inl (Exception ''OpenAI API error: timeout'')"
    by (simp add: failing_planner_def)
  then have failed:
    "iteration_count (planner_execute python0 failing_planner (initial_state ''ai'' ''t0'')) = 0
     \<and> errors (planner_execute python0 failing_planner (initial_state ''ai'' ''t0'')) =
       [\<lparr>etype = ''planning_failed'', message = ''OpenAI API error: timeout'',
         step = ''planning''\<rparr>]
     \<and> current_step (planner_execute python0 failing_planner (initial_state ''ai'' ''t0''))
       = ERROR_RECOVERY"
    by (simp add: planner_execute_def planner_handle_error_def initial_state_def)
  have "questions_completion one_question_planner = Inr ''1. What is X?''"
    by (simp add: one_question_planner_def)
  then have ok: "iteration_count
       (planner_execute python0 one_question_planner (initial_state ''ai'' ''t0'')) = 1"
    by (simp add: planner_execute_iteration_count initial_state_def)
  from failed ok replan_world_ainvoke show ?thesis by blast
qed

section \<open>The workflow's entry point\<close>











text \<open>
  The record must be the fresh one: on a record that already carries an error whose kind
  contains \<^verbatim>\<open>critical\<close> the run ends in the error-recovery node, which with five
  errors or fewer sets neither a report nor a final step.
\<close>

lemma preloaded_critical_error:
  "current_step (execute python0 default_config (\<lambda>k. quiet_event) ''t1''
      ((initial_state ''ai'' ''t0'')\<lparr>errors := [failure ''critical_outage'']\<rparr>)) = QUALITY_ASSESSED
   \<and> final_report (execute python0 default_config (\<lambda>k. quiet_event) ''t1''
      ((initial_state ''ai'' ''t0'')\<lparr>errors := [failure ''critical_outage'']\<rparr>)) = None"
  by code_simp




end
